theory Spec2Isabelle
  imports Complex_Main "HOL-Library.AList" "HOL-Library.Char_ord" "HOL-Library.List_Lexorder"
begin

section \<open>Python values\<close>

text \<open>
  The values that flow through \<^verbatim>\<open>openlavaweb/views.py\<close> and
  \<^verbatim>\<open>openlavaweb/cluster/__init__.py\<close>. Scalars, lists and dictionaries are values;
  an instance of a class is a reference into a store of objects, so that two entities may
  refer to each other. A bound method is the pair of the object and the method's name. A
  \<^verbatim>\<open>datetime.timedelta\<close> carries its days, seconds and microseconds; a naive
  \<^verbatim>\<open>datetime.datetime\<close> is the number of seconds that its wall clock shows since
  1970-01-01 00:00:00. A Python float is idealised as a real number. A dictionary is an
  association list whose keys are kept distinct by \<open>AList.update\<close>.
\<close>

datatype pyval =
    PNone
  | PBool bool
  | PInt int
  | PFloat real
  | PStr string
  | PList "pyval list"
  | PDict "(string \<times> pyval) list"
  | PRef nat
  | PBoundMethod nat string
  | PTimedelta int int int
  | PDatetime real

text \<open>Truth value testing, as \<^verbatim>\<open>if value:\<close> does it.\<close>

fun truthy :: "pyval \<Rightarrow> bool" where
  "truthy PNone = False"
| "truthy (PBool b) = b"
| "truthy (PInt i) = (i \<noteq> 0)"
| "truthy (PFloat x) = (x \<noteq> 0)"
| "truthy (PStr s) = (s \<noteq> [])"
| "truthy (PList xs) = (xs \<noteq> [])"
| "truthy (PDict kvs) = (kvs \<noteq> [])"
| "truthy (PRef r) = True"
| "truthy (PBoundMethod r n) = True"
| "truthy (PTimedelta d s us) = (d \<noteq> 0 \<or> s \<noteq> 0 \<or> us \<noteq> 0)"
| "truthy (PDatetime t) = True"

section \<open>Failures\<close>

text \<open>The built-in exceptions that the two modules can meet.\<close>

datatype pyerr =
    KeyError
  | OSError
  | AttributeError
  | TypeError
  | ValueError
  | NotImplementedError
  | IndexError
  | OverflowError
  | QueueEmpty
  | NoReverseMatch

text \<open>The classes of the taxonomy: \<^verbatim>\<open>ClusterException\<close> and its subclasses.\<close>

datatype exc_class =
    ClusterException
  | NoSuchHostError
  | NoSuchJobError
  | NoSuchQueueError
  | NoSuchUserError
  | ResourceDoesntExistError
  | ClusterInterfaceError
  | PermissionDeniedError
  | JobSubmitError

text \<open>\<^verbatim>\<open>cls.__name__\<close>\<close>

fun exc_class_name :: "exc_class \<Rightarrow> string" where
  "exc_class_name ClusterException = ''ClusterException''"
| "exc_class_name NoSuchHostError = ''NoSuchHostError''"
| "exc_class_name NoSuchJobError = ''NoSuchJobError''"
| "exc_class_name NoSuchQueueError = ''NoSuchQueueError''"
| "exc_class_name NoSuchUserError = ''NoSuchUserError''"
| "exc_class_name ResourceDoesntExistError = ''ResourceDoesntExistError''"
| "exc_class_name ClusterInterfaceError = ''ClusterInterfaceError''"
| "exc_class_name PermissionDeniedError = ''PermissionDeniedError''"
| "exc_class_name JobSubmitError = ''JobSubmitError''"

text \<open>The class attribute \<^verbatim>\<open>http_response\<close>; \<^verbatim>\<open>None\<close> where a class does not set it.\<close>

fun class_http_response :: "exc_class \<Rightarrow> string option" where
  "class_http_response ClusterException = None"
| "class_http_response NoSuchHostError = Some ''HttpResponseNotFound''"
| "class_http_response NoSuchJobError = Some ''HttpResponseNotFound''"
| "class_http_response NoSuchQueueError = Some ''HttpResponseNotFound''"
| "class_http_response NoSuchUserError = Some ''HttpResponseNotFound''"
| "class_http_response ResourceDoesntExistError = Some ''HttpResponseNotFound''"
| "class_http_response ClusterInterfaceError = None"
| "class_http_response PermissionDeniedError = Some ''HttpResponseForbidden''"
| "class_http_response JobSubmitError = None"

text \<open>Sequencing of computations that may raise.\<close>

definition bindE :: "'e + 'a \<Rightarrow> ('a \<Rightarrow> 'e + 'b) \<Rightarrow> 'e + 'b" where
  "bindE m f = (case m of Inl e \<Rightarrow> Inl e | Inr x \<Rightarrow> f x)"

fun sequenceE :: "('e + 'a) list \<Rightarrow> 'e + 'a list" where
  "sequenceE [] = Inr []"
| "sequenceE (m # ms) =
     (case m of
        Inl e \<Rightarrow> Inl e
      | Inr x \<Rightarrow> (case sequenceE ms of Inl e \<Rightarrow> Inl e | Inr xs \<Rightarrow> Inr (x # xs)))"

text \<open>Iterating over a value, as \<^verbatim>\<open>for f in value\<close> and \<^verbatim>\<open>tuple(value)\<close> do.\<close>

fun py_iter :: "pyval \<Rightarrow> pyerr + pyval list" where
  "py_iter (PList xs) = Inr xs"
| "py_iter (PStr s) = Inr (map (\<lambda>c. PStr [c]) s)"
| "py_iter (PDict kvs) = Inr (map (\<lambda>kv. PStr (fst kv)) kvs)"
| "py_iter v = Inl TypeError"

section \<open>JSON documents\<close>

text \<open>
  What \<^verbatim>\<open>json.dumps(..., sort_keys=True, indent=4)\<close> writes, as a tree: the members of
  an object are in the order of their keys. The layout of the text is not modelled.
\<close>

datatype json =
    JNull
  | JBool bool
  | JInt int
  | JFloat real
  | JString string
  | JArray "json list"
  | JObject "(string \<times> json) list"

text \<open>
  \<^verbatim>\<open>json.dumps\<close> with the standard encoder: an object that is not a scalar, a list or
  a dictionary raises \<^verbatim>\<open>TypeError\<close>.
\<close>

fun dumps_std :: "pyval \<Rightarrow> pyerr + json" where
  "dumps_std PNone = Inr JNull"
| "dumps_std (PBool b) = Inr (JBool b)"
| "dumps_std (PInt i) = Inr (JInt i)"
| "dumps_std (PFloat x) = Inr (JFloat x)"
| "dumps_std (PStr s) = Inr (JString s)"
| "dumps_std (PList xs) = bindE (sequenceE (map dumps_std xs)) (\<lambda>js. Inr (JArray js))"
| "dumps_std (PDict kvs) =
     bindE (sequenceE (map (\<lambda>kv. bindE (dumps_std (snd kv)) (\<lambda>j. Inr (fst kv, j)))
                           (sort_key fst kvs)))
       (\<lambda>ms. Inr (JObject ms))"
| "dumps_std (PRef r) = Inl TypeError"
| "dumps_std (PBoundMethod r n) = Inl TypeError"
| "dumps_std (PTimedelta d s us) = Inl TypeError"
| "dumps_std (PDatetime t) = Inl TypeError"

section \<open>Instances of the taxonomy\<close>

text \<open>
  An instance of \<^verbatim>\<open>ClusterException\<close> or of a subclass, as Python 2 keeps it: its
  class; the tuple \<^verbatim>\<open>args\<close> and the message that \<^verbatim>\<open>Exception.__init__\<close> stores
  in the object itself; and the instance dictionary \<^verbatim>\<open>__dict__\<close>, which holds what
  \<^verbatim>\<open>setattr\<close> stored under any other name.
\<close>

record cluster_exception =
  exc_class :: exc_class
  exc_args :: "pyval list"
  exc_msg :: pyval
  inst_dict :: "(string \<times> pyval) list"

datatype exn = Builtin pyerr | Taxonomy cluster_exception

text \<open>
  What an attribute of an exception reads as: a value, or an object that is none of the
  values above and that \<^verbatim>\<open>json.dumps\<close> cannot write (a bound method, the class).
\<close>

datatype attr_value = Plain pyval | Opaque

text \<open>The docstrings of the classes, which are their attribute \<^verbatim>\<open>__doc__\<close>.\<close>

fun exc_class_doc :: "exc_class \<Rightarrow> string" where
  "exc_class_doc ClusterException =
       [CHR 0x0A] @
       ''    Base class for exceptions relating to cluster classes.'' @
       [CHR 0x0A] @
       ''    ''"
| "exc_class_doc NoSuchHostError =
       [CHR 0x0A] @
       ''    Raised when the requested host does not exist in the job scheduling environment, or it is not visible/accessible'' @
       [CHR 0x0A] @
       ''    by the current user.'' @
       [CHR 0x0A] @
       ''    ''"
| "exc_class_doc NoSuchJobError =
       [CHR 0x0A] @
       ''    Raised when the requested job does not exist in the job scheduling environment.  This can happen when the'' @
       [CHR 0x0A] @
       ''    job has been completed, and the scheduler has purged the job from the active jobs.'' @
       [CHR 0x0A] @
       ''    ''"
| "exc_class_doc NoSuchQueueError =
       [CHR 0x0A] @
       ''    Raised when the requested queue does not exist in the job scheduling environment, or it is not visible/accessible'' @
       [CHR 0x0A] @
       ''    by the current user.'' @
       [CHR 0x0A] @
       ''    ''"
| "exc_class_doc NoSuchUserError =
       [CHR 0x0A] @
       ''    Raised when the requested user does not exist in the job scheduling environment.'' @
       [CHR 0x0A] @
       ''    ''"
| "exc_class_doc ResourceDoesntExistError =
       [CHR 0x0A] @
       ''    Raised when the requested resource does not exist in the job scheduling environment.'' @
       [CHR 0x0A] @
       ''    ''"
| "exc_class_doc ClusterInterfaceError =
       [CHR 0x0A] @
       ''    Raised when the underlying API call fails, for example due to a network fault, or the job scheduler'' @
       [CHR 0x0A] @
       ''    being unavailable.'' @
       [CHR 0x0A] @
       ''    ''"
| "exc_class_doc PermissionDeniedError =
       [CHR 0x0A] @
       ''    Raised when the current user does not have sufficiant privilages to perform for requested operation'' @
       [CHR 0x0A] @
       ''    ''"
| "exc_class_doc JobSubmitError =
       [CHR 0x0A] @
       ''    Raised when a job cannot be submitted'' @
       [CHR 0x0A] @
       ''    ''"

text \<open>
  The methods that an instance finds on its classes \<^verbatim>\<open>ClusterException\<close>,
  \<^verbatim>\<open>Exception\<close>, \<^verbatim>\<open>BaseException\<close> and \<^verbatim>\<open>object\<close>.
\<close>

definition exception_method_names :: "string list" where
  "exception_method_names =
     [''__delattr__'', ''__format__'', ''__getattribute__'', ''__getitem__'',
      ''__getslice__'', ''__hash__'', ''__init__'', ''__new__'', ''__reduce__'',
      ''__reduce_ex__'', ''__repr__'', ''__setattr__'', ''__setstate__'', ''__sizeof__'',
      ''__str__'', ''__subclasshook__'', ''__unicode__'', ''get_class'', ''json_response'',
      ''to_json'']"

text \<open>
  Every name under which a fresh instance already has an attribute: the attributes kept in
  the object, the methods, the other class attributes, and \<^verbatim>\<open>_extras\<close>.
\<close>

definition exception_attribute_names :: "string list" where
  "exception_attribute_names =
     [''args'', ''message'', ''__dict__'', ''__class__'', ''__weakref__''] @
     exception_method_names @
     [''__doc__'', ''__module__'', ''http_response'', ''_extras'']"

text \<open>
  \<^verbatim>\<open>self.message\<close>: the entry of the instance dictionary, if a \<^verbatim>\<open>setattr\<close> made
  one, else the message kept in the object.
\<close>

definition exc_message :: "cluster_exception \<Rightarrow> pyval" where
  "exc_message e = (case map_of (inst_dict e) ''message'' of None \<Rightarrow> exc_msg e | Some v \<Rightarrow> v)"

text \<open>An attribute that the classes of the instance provide.\<close>

definition exc_class_attribute :: "exc_class \<Rightarrow> string \<Rightarrow> attr_value option" where
  "exc_class_attribute cl f =
     (if f = ''http_response''
        then Some (Plain (case class_http_response cl of None \<Rightarrow> PNone | Some s \<Rightarrow> PStr s))
      else if f = ''__doc__'' then Some (Plain (PStr (exc_class_doc cl)))
      else if f = ''__module__'' then Some (Plain (PStr ''openlavaweb.cluster''))
      else if f \<in> set exception_method_names then Some Opaque
      else None)"

text \<open>
  \<^verbatim>\<open>getattr(self, f)\<close> on an exception: first the attributes kept in the object, then
  the instance dictionary, then the classes.
\<close>

definition exc_getattr :: "cluster_exception \<Rightarrow> string \<Rightarrow> pyerr + attr_value" where
  "exc_getattr e f =
     (if f = ''args'' then Inr (Plain (PList (exc_args e)))
      else if f = ''message'' then Inr (Plain (exc_message e))
      else if f = ''__dict__'' then Inr (Plain (PDict (inst_dict e)))
      else if f = ''__class__'' then Inr Opaque
      else if f = ''__weakref__'' then Inr (Plain PNone)
      else case map_of (inst_dict e) f of
             Some v \<Rightarrow> Inr (Plain v)
           | None \<Rightarrow>
               (case exc_class_attribute (exc_class e) f of
                  Some a \<Rightarrow> Inr a
                | None \<Rightarrow> Inl AttributeError))"

text \<open>
  \<^verbatim>\<open>setattr(self, k, v)\<close> on an exception. \<^verbatim>\<open>args\<close> takes the tuple of an iterable,
  \<^verbatim>\<open>__dict__\<close> takes a dictionary, which replaces the instance dictionary,
  \<^verbatim>\<open>__class__\<close> takes a class, which no value here is, and \<^verbatim>\<open>__weakref__\<close> cannot be
  written; any other name becomes an entry of the instance dictionary.
\<close>

definition exc_setattr :: "cluster_exception \<Rightarrow> string \<Rightarrow> pyval \<Rightarrow> pyerr + cluster_exception" where
  "exc_setattr e k v =
     (if k = ''args'' then
        (case py_iter v of Inl x \<Rightarrow> Inl TypeError | Inr xs \<Rightarrow> Inr (e\<lparr>exc_args := xs\<rparr>))
      else if k = ''__dict__'' then
        (case v of PDict d \<Rightarrow> Inr (e\<lparr>inst_dict := d\<rparr>) | _ \<Rightarrow> Inl TypeError)
      else if k = ''__class__'' then Inl TypeError
      else if k = ''__weakref__'' then Inl AttributeError
      else Inr (e\<lparr>inst_dict := AList.update k v (inst_dict e)\<rparr>))"

text \<open>
  \<^verbatim>\<open>self._extras.append(k)\<close>: the list is the entry of the instance dictionary and grows
  in place; anything else under that name has no \<^verbatim>\<open>append\<close>.
\<close>

definition exc_extras_append :: "cluster_exception \<Rightarrow> string \<Rightarrow> pyerr + cluster_exception" where
  "exc_extras_append e k =
     (case map_of (inst_dict e) ''_extras'' of
        Some (PList names) \<Rightarrow>
          Inr (e\<lparr>inst_dict := AList.update ''_extras'' (PList (names @ [PStr k])) (inst_dict e)\<rparr>)
      | _ \<Rightarrow> Inl AttributeError)"

text \<open>
  \<^verbatim>\<open>ClusterException.__init__(self, message, **kwargs)\<close>. A keyword called
  \<^verbatim>\<open>self\<close> or \<^verbatim>\<open>message\<close> collides with a parameter and the call raises before the
  body runs. The body stores the message with \<^verbatim>\<open>Exception.__init__\<close>, sets
  \<^verbatim>\<open>self._extras = []\<close> and loops over \<^verbatim>\<open>kwargs.iteritems()\<close>, in the order in
  which the dictionary yields its items: each round appends the name to
  \<^verbatim>\<open>self._extras\<close> and then sets the attribute.
\<close>

fun init_extras ::
  "(string \<times> pyval) list \<Rightarrow> cluster_exception \<Rightarrow> pyerr + cluster_exception" where
  "init_extras [] e = Inr e"
| "init_extras ((k, v) # kwargs) e =
     bindE (exc_extras_append e k) (\<lambda>e1. bindE (exc_setattr e1 k v) (init_extras kwargs))"

definition ClusterException_init ::
  "exc_class \<Rightarrow> pyval \<Rightarrow> (string \<times> pyval) list \<Rightarrow> pyerr + cluster_exception" where
  "ClusterException_init cl message kwargs =
     (if ''self'' \<in> set (map fst kwargs) \<or> ''message'' \<in> set (map fst kwargs)
      then Inl TypeError
      else bindE (exc_setattr \<lparr>exc_class = cl, exc_args = [message], exc_msg = message,
                                inst_dict = []\<rparr> ''_extras'' (PList []))
             (init_extras kwargs))"

text \<open>
  The function \<^verbatim>\<open>ClusterException.json_response\<close>, which is what
  \<^verbatim>\<open>e.json_response()\<close> calls unless an instance attribute of that name hides it.
\<close>

definition json_response :: "cluster_exception \<Rightarrow> pyval" where
  "json_response e =
     PDict [(''exception_class'', PStr (exc_class_name (exc_class e))),
            (''message'', exc_message e)]"

text \<open>
  The function \<^verbatim>\<open>ClusterException.to_json\<close>, which is what \<^verbatim>\<open>e.to_json()\<close> calls
  unless an instance attribute of that name hides it: the three fixed fields, then one
  assignment \<^verbatim>\<open>fields[f] = getattr(self, f)\<close> for each name in \<^verbatim>\<open>self._extras\<close>,
  then \<^verbatim>\<open>json.dumps\<close> of the dictionary.
\<close>

fun to_json_loop ::
  "cluster_exception \<Rightarrow> pyval list \<Rightarrow> (string \<times> attr_value) list \<Rightarrow>
   pyerr + (string \<times> attr_value) list" where
  "to_json_loop e [] flds = Inr flds"
| "to_json_loop e (PStr f # fs) flds =
     bindE (exc_getattr e f) (\<lambda>a. to_json_loop e fs (AList.update f a flds))"
| "to_json_loop e (x # fs) flds = Inl TypeError"

fun the_plain :: "attr_value \<Rightarrow> pyval" where
  "the_plain (Plain v) = v"
| "the_plain Opaque = PNone"

definition dumps_fields :: "(string \<times> attr_value) list \<Rightarrow> pyerr + json" where
  "dumps_fields flds =
     (if Opaque \<in> set (map snd flds) then Inl TypeError
      else dumps_std (PDict (map (\<lambda>kv. (fst kv, the_plain (snd kv))) flds)))"

definition to_json :: "cluster_exception \<Rightarrow> pyerr + json" where
  "to_json e =
     (let flds = [(''status'', Plain (PStr ''Fail'')),
                  (''type'', Plain (PStr ''Exception'')),
                  (''message'', Plain (exc_message e))]
      in bindE (exc_getattr e ''_extras'')
           (\<lambda>a. case a of
                  Opaque \<Rightarrow> Inl TypeError
                | Plain extras \<Rightarrow>
                    bindE (py_iter extras)
                      (\<lambda>names. bindE (to_json_loop e names flds) dumps_fields)))"

section \<open>Entities\<close>

text \<open>
  Modelled from the spec: the classes \<^verbatim>\<open>Cluster\<close>, \<^verbatim>\<open>Host\<close>,
  \<^verbatim>\<open>ExecutionHost\<close>, \<^verbatim>\<open>Job\<close>, \<^verbatim>\<open>Queue\<close> and \<^verbatim>\<open>User\<close> that
  \<^verbatim>\<open>views.py\<close> imports from \<^verbatim>\<open>openlavacluster\<close> are not part of the sources at hand.
  Each is taken to be the entity type of that name in the data model, which presents the
  projection list that its base class declares in \<^verbatim>\<open>cluster/__init__.py\<close>
  (an execution host being a host). \<^verbatim>\<open>Process\<close>, \<^verbatim>\<open>ResourceLimit\<close> and
  \<^verbatim>\<open>ConsumedResource\<close> are the classes of \<^verbatim>\<open>cluster/__init__.py\<close> themselves; any
  other class is known by its name only.
\<close>

datatype pyclass =
    CCluster
  | CHost
  | CExecutionHost
  | CJob
  | CQueue
  | CUser
  | CProcess
  | CResourceLimit
  | CConsumedResource
  | COther string

text \<open>\<^verbatim>\<open>obj.__class__.__name__\<close>\<close>

fun class_name :: "pyclass \<Rightarrow> string" where
  "class_name CCluster = ''Cluster''"
| "class_name CHost = ''Host''"
| "class_name CExecutionHost = ''ExecutionHost''"
| "class_name CJob = ''Job''"
| "class_name CQueue = ''Queue''"
| "class_name CUser = ''User''"
| "class_name CProcess = ''Process''"
| "class_name CResourceLimit = ''ResourceLimit''"
| "class_name CConsumedResource = ''ConsumedResource''"
| "class_name (COther n) = n"

text \<open>
  What an object holds under a name: an attribute or property, whose read yields a value
  or raises (as the accessors of the base classes do with \<^verbatim>\<open>NotImplementedError\<close>), or
  a method, whose call without arguments yields a value or raises.
\<close>

datatype slot = Attr "exn + pyval" | Method "exn + pyval"

record pyobj =
  cls :: pyclass
  slots :: "(string \<times> slot) list"

text \<open>
  What the code reads from its surroundings: the store of objects (a reference is a key of
  this list), Django's \<^verbatim>\<open>reverse\<close>, which maps the name of a view and its arguments to
  a URL or raises, the offset of the local time zone from UTC, in seconds, at a given
  instant, and the verdict of the platform's \<^verbatim>\<open>localtime\<close> and \<^verbatim>\<open>gmtime\<close> on an
  instant: the exception that the conversion raises for it (\<^verbatim>\<open>ValueError\<close> or
  \<^verbatim>\<open>OverflowError\<close>), if any.
\<close>

record site =
  objects :: "(nat \<times> pyobj) list"
  reverse :: "string \<Rightarrow> pyval list \<Rightarrow> exn + pyval"
  utcoffset :: "int \<Rightarrow> int"
  localtime_error :: "real \<Rightarrow> pyerr option"
  gmtime_error :: "real \<Rightarrow> pyerr option"

text \<open>\<^verbatim>\<open>getattr(obj, name)\<close>, which is also \<^verbatim>\<open>obj.name\<close>.\<close>

definition getattr :: "site \<Rightarrow> pyval \<Rightarrow> string \<Rightarrow> exn + pyval" where
  "getattr c v name =
     (case v of
        PRef r \<Rightarrow>
          (case map_of (objects c) r of
             None \<Rightarrow> Inl (Builtin AttributeError)
           | Some obj \<Rightarrow>
               (case map_of (slots obj) name of
                  None \<Rightarrow> Inl (Builtin AttributeError)
                | Some (Attr res) \<Rightarrow> res
                | Some (Method res) \<Rightarrow> Inr (PBoundMethod r name)))
      | _ \<Rightarrow> Inl (Builtin AttributeError))"

text \<open>\<^verbatim>\<open>hasattr(value, '__call__')\<close>\<close>

fun callable :: "pyval \<Rightarrow> bool" where
  "callable (PBoundMethod r n) = True"
| "callable v = False"

text \<open>\<^verbatim>\<open>value()\<close>\<close>

definition call :: "site \<Rightarrow> pyval \<Rightarrow> exn + pyval" where
  "call c v =
     (case v of
        PBoundMethod r name \<Rightarrow>
          (case map_of (objects c) r of
             None \<Rightarrow> Inl (Builtin TypeError)
           | Some obj \<Rightarrow>
               (case map_of (slots obj) name of
                  Some (Method res) \<Rightarrow> res
                | _ \<Rightarrow> Inl (Builtin TypeError)))
      | _ \<Rightarrow> Inl (Builtin TypeError))"

subsection \<open>The declared projection lists\<close>

definition ClusterBase_json_attributes :: "string list" where
  "ClusterBase_json_attributes =
     [''cluster_type'', ''admins'', ''name'', ''main'', ''hosts'', ''problem_hosts'',
      ''queues'', ''jobs'', ''resources'']"

definition JobBase_json_attributes :: "string list" where
  "JobBase_json_attributes =
     [''queue'', ''submission_host'', ''execution_hosts'', ''requested_hosts'',
      ''cluster_type'', ''admins'', ''job_id'', ''array_index'', ''begin_time'', ''command'',
      ''consumed_resources'', ''cpu_time'', ''dependency_condition'', ''email_user'',
      ''end_time'', ''error_file_name'', ''input_file_name'', ''max_requested_slots'',
      ''name'', ''options'', ''output_file_name'', ''pending_reasons'',
      ''predicted_start_time'', ''priority'', ''process_id'', ''processes'',
      ''project_names'', ''requested_resources'', ''requested_slots'', ''reservation_time'',
      ''runtime_limits'', ''start_time'', ''status'', ''submit_time'', ''suspension_reasons'',
      ''termination_time'', ''user_name'', ''user_priority'', ''is_pending'', ''is_running'',
      ''is_suspended'', ''is_failed'', ''was_killed'', ''is_completed'']"

definition HostBase_json_attributes :: "string list" where
  "HostBase_json_attributes =
     [''admins'', ''name'', ''host_name'', ''description'', ''has_checkpoint_support'',
      ''host_model'', ''host_type'', ''resources'', ''is_busy'', ''is_closed'', ''is_down'',
      ''max_jobs'', ''max_processors'', ''max_ram'', ''max_slots'', ''max_swap'', ''max_tmp'',
      ''num_reserved_slots'', ''num_running_jobs'', ''num_running_slots'',
      ''num_suspended_jobs'', ''num_suspended_slots'', ''statuses'', ''total_jobs'',
      ''total_slots'', ''jobs'', ''load_information'', ''cluster_type'']"

definition UserBase_json_attributes :: "string list" where
  "UserBase_json_attributes =
     [''cluster_type'', ''name'', ''max_jobs_per_processor'', ''max_slots'', ''total_slots'',
      ''num_running_slots'', ''num_pending_slots'', ''num_suspended_slots'',
      ''num_reserved_slots'', ''max_jobs'', ''total_jobs'', ''num_running_jobs'',
      ''num_pending_jobs'', ''num_suspended_jobs'', ''jobs'']"

definition QueueBase_json_attributes :: "string list" where
  "QueueBase_json_attributes =
     [''name'', ''description'', ''priority'', ''max_jobs_per_user'', ''max_slots_per_user'',
      ''max_jobs_per_processor'', ''max_slots_per_processor'', ''allowed_users'',
      ''allowed_hosts'', ''runtime_limits'', ''host_specification'', ''attributes'',
      ''statuses'', ''max_slots'', ''total_slots'', ''num_running_slots'',
      ''num_pending_slots'', ''num_suspended_slots'', ''num_reserved_slots'', ''max_jobs'',
      ''total_jobs'', ''num_running_jobs'', ''num_pending_jobs'', ''num_suspended_jobs'',
      ''admins'', ''dispatch_windows'', ''max_slots_per_job'', ''max_jobs_per_host'',
      ''max_slots_per_host'', ''resource_requirements'', ''min_slots_per_job'',
      ''default_slots_per_job'', ''checkpoint_data_directory'', ''checkpoint_period'',
      ''is_accepting_jobs'', ''is_dispatching_jobs'', ''jobs'', ''cluster_type'']"

definition ResourceLimit_json_attributes :: "string list" where
  "ResourceLimit_json_attributes =
     [''name'', ''soft_limit'', ''hard_limit'', ''description'', ''unit'']"

definition ConsumedResource_json_attributes :: "string list" where
  "ConsumedResource_json_attributes = [''name'', ''value'', ''limit'', ''unit'']"

text \<open>
  \<^verbatim>\<open>Process.json_attributes\<close>: \<^verbatim>\<open>['hostname', 'process_id'] + self.extras\<close>, which
  raises unless \<^verbatim>\<open>self.extras\<close> is a list.
\<close>

definition Process_json_attributes :: "pyobj \<Rightarrow> exn + pyval list" where
  "Process_json_attributes obj =
     (case map_of (slots obj) ''extras'' of
        None \<Rightarrow> Inl (Builtin AttributeError)
      | Some (Method res) \<Rightarrow> Inl (Builtin TypeError)
      | Some (Attr res) \<Rightarrow>
          bindE res
            (\<lambda>extras. case extras of
                 PList names \<Rightarrow> Inr ([PStr ''hostname'', PStr ''process_id''] @ names)
               | _ \<Rightarrow> Inl (Builtin TypeError)))"

text \<open>
  \<^verbatim>\<open>obj.json_attributes()\<close>. \<^verbatim>\<open>Process\<close> is a classic class whose instances take
  any keyword as an attribute, so the slots of a process are its instance dictionary, and an
  entry of this name there hides the method of the class: it is what gets called, and
  what it returns is what \<^verbatim>\<open>default\<close> iterates over.
\<close>

definition json_attributes :: "site \<Rightarrow> pyobj \<Rightarrow> exn + pyval list" where
  "json_attributes c obj =
     (case cls obj of
        CCluster \<Rightarrow> Inr (map PStr ClusterBase_json_attributes)
      | CHost \<Rightarrow> Inr (map PStr HostBase_json_attributes)
      | CExecutionHost \<Rightarrow> Inr (map PStr HostBase_json_attributes)
      | CJob \<Rightarrow> Inr (map PStr JobBase_json_attributes)
      | CQueue \<Rightarrow> Inr (map PStr QueueBase_json_attributes)
      | CUser \<Rightarrow> Inr (map PStr UserBase_json_attributes)
      | CProcess \<Rightarrow>
          (case map_of (slots obj) ''json_attributes'' of
             None \<Rightarrow> Process_json_attributes obj
           | Some (Attr res) \<Rightarrow>
               bindE res (\<lambda>f. bindE (call c f)
                 (\<lambda>names. case py_iter names of
                             Inl e \<Rightarrow> Inl (Builtin e)
                           | Inr ns \<Rightarrow> Inr ns))
           | Some (Method res) \<Rightarrow>
               bindE res
                 (\<lambda>names. case py_iter names of
                             Inl e \<Rightarrow> Inl (Builtin e)
                           | Inr ns \<Rightarrow> Inr ns))
      | CResourceLimit \<Rightarrow> Inr (map PStr ResourceLimit_json_attributes)
      | CConsumedResource \<Rightarrow> Inr (map PStr ConsumedResource_json_attributes)
      | COther n \<Rightarrow> Inl (Builtin AttributeError))"

text \<open>
  \<^verbatim>\<open>setattr(self, k, v)\<close> on an instance of the classic class \<^verbatim>\<open>Process\<close>:
  \<^verbatim>\<open>__dict__\<close> takes a dictionary only, which becomes the instance dictionary;
  \<^verbatim>\<open>__class__\<close> takes a class only, which no value here is; any other name becomes an
  entry of the instance dictionary.
\<close>

definition Process_setattr ::
  "(string \<times> slot) list \<Rightarrow> string \<Rightarrow> pyval \<Rightarrow> exn + (string \<times> slot) list" where
  "Process_setattr d k v =
     (if k = ''__dict__'' then
        (case v of
           PDict d' \<Rightarrow> Inr (map (\<lambda>kv. (fst kv, Attr (Inr (snd kv)))) d')
         | _ \<Rightarrow> Inl (Builtin TypeError))
      else if k = ''__class__'' then Inl (Builtin TypeError)
      else Inr (AList.update k (Attr (Inr v)) d))"

text \<open>
  \<^verbatim>\<open>self.extras.append(k)\<close>: \<^verbatim>\<open>self.extras\<close> is read from the instance dictionary
  (the class has no attribute of this name). A list grows by the name. An entity has
  \<^verbatim>\<open>append\<close> only if it holds something under that name, and then nothing that takes
  an argument. No other value has \<^verbatim>\<open>append\<close>.
\<close>

definition Process_extras_append ::
  "site \<Rightarrow> (string \<times> slot) list \<Rightarrow> string \<Rightarrow> exn + (string \<times> slot) list" where
  "Process_extras_append c d k =
     (case map_of d ''extras'' of
        Some (Attr (Inr (PList names))) \<Rightarrow>
          Inr (AList.update ''extras'' (Attr (Inr (PList (names @ [PStr k])))) d)
      | Some (Attr (Inr (PRef r))) \<Rightarrow>
          bindE (getattr c (PRef r) ''append'') (\<lambda>f. Inl (Builtin TypeError))
      | _ \<Rightarrow> Inl (Builtin AttributeError))"

text \<open>
  \<^verbatim>\<open>Process.__init__(self, hostname, process_id, **kwargs)\<close>: each keyword is set as
  an attribute and then its name is appended to \<^verbatim>\<open>self.extras\<close>. The keywords are
  given in the order in which \<^verbatim>\<open>kwargs.iteritems()\<close> yields them. A keyword that names
  a parameter of the constructor is refused at the call.
\<close>

fun Process_init_loop ::
  "site \<Rightarrow> (string \<times> pyval) list \<Rightarrow> (string \<times> slot) list \<Rightarrow> exn + (string \<times> slot) list" where
  "Process_init_loop c [] d = Inr d"
| "Process_init_loop c ((k, v) # kwargs) d =
     bindE (Process_setattr d k v)
       (\<lambda>d1. bindE (Process_extras_append c d1 k) (Process_init_loop c kwargs))"

definition Process_init ::
  "site \<Rightarrow> pyval \<Rightarrow> pyval \<Rightarrow> (string \<times> pyval) list \<Rightarrow> exn + pyobj" where
  "Process_init c hostname process_id kwargs =
     (if ''self'' \<in> set (map fst kwargs) \<or> ''hostname'' \<in> set (map fst kwargs) \<or>
         ''process_id'' \<in> set (map fst kwargs)
      then Inl (Builtin TypeError)
      else bindE (Process_init_loop c kwargs
                    [(''hostname'', Attr (Inr hostname)),
                     (''process_id'', Attr (Inr process_id)),
                     (''extras'', Attr (Inr (PList [])))])
             (\<lambda>d. Inr \<lparr>cls = CProcess, slots = d\<rparr>))"

section \<open>The projection encoder\<close>

text \<open>
  \<^verbatim>\<open>ClusterEncoder.check\<close>: the four \<^verbatim>\<open>isinstance\<close> tests in the order of the source,
  each building its dictionary from attribute reads of the object and from
  \<^verbatim>\<open>reverse\<close>; any other value is returned as it is.
\<close>

definition check :: "site \<Rightarrow> pyval \<Rightarrow> exn + pyval" where
  "check c obj =
     (case obj of
        PRef r \<Rightarrow>
          (case map_of (objects c) r of
             None \<Rightarrow> Inr obj
           | Some ob \<Rightarrow>
               if cls ob = CExecutionHost then
                 bindE (getattr c obj ''name'') (\<lambda>name.
                 bindE (getattr c obj ''num_slots_for_job'') (\<lambda>num_slots.
                 bindE (reverse c ''olw_host_view'' [name]) (\<lambda>url.
                   Inr (PDict [(''type'', PStr ''ExecutionHost''),
                               (''name'', name),
                               (''num_slots'', num_slots),
                               (''url'', url)]))))
               else if cls ob = CHost then
                 bindE (getattr c obj ''name'') (\<lambda>name.
                 bindE (reverse c ''olw_host_view'' [name]) (\<lambda>url.
                   Inr (PDict [(''type'', PStr ''Host''),
                               (''name'', name),
                               (''url'', url)])))
               else if cls ob = CJob then
                 bindE (getattr c obj ''name'') (\<lambda>name.
                 bindE (getattr c obj ''job_id'') (\<lambda>job_id.
                 bindE (getattr c obj ''array_index'') (\<lambda>array_index.
                 bindE (reverse c ''olw_job_view_array'' [job_id, array_index]) (\<lambda>url.
                 bindE (getattr c obj ''user_name'') (\<lambda>user_name.
                 bindE (reverse c ''olw_user_view'' [user_name]) (\<lambda>user_url.
                 bindE (getattr c obj ''status'') (\<lambda>status.
                 bindE (getattr c obj ''submit_time'') (\<lambda>submit_time.
                 bindE (getattr c obj ''start_time'') (\<lambda>start_time.
                 bindE (getattr c obj ''end_time'') (\<lambda>end_time.
                   Inr (PDict [(''type'', PStr ''Job''),
                               (''name'', name),
                               (''job_id'', job_id),
                               (''array_index'', array_index),
                               (''url'', url),
                               (''user_name'', user_name),
                               (''user_url'', user_url),
                               (''status'', status),
                               (''submit_time'', submit_time),
                               (''start_time'', start_time),
                               (''end_time'', end_time)])))))))))))
               else if cls ob = CQueue then
                 bindE (getattr c obj ''name'') (\<lambda>name.
                 bindE (reverse c ''olw_queue_view'' [name]) (\<lambda>url.
                   Inr (PDict [(''type'', PStr ''Queue''),
                               (''name'', name),
                               (''url'', url)])))
               else Inr obj)
      | _ \<Rightarrow> Inr obj)"

text \<open>
  The body of the loop of \<^verbatim>\<open>ClusterEncoder.default\<close> up to the assignment, in its
  three steps: read the attribute and call it when it is callable; then apply
  \<^verbatim>\<open>check\<close> to every element of a list, or to the value itself.
\<close>

definition resolve_attribute :: "site \<Rightarrow> pyval \<Rightarrow> string \<Rightarrow> exn + pyval" where
  "resolve_attribute c obj name =
     bindE (getattr c obj name)
       (\<lambda>val. if callable val then call c val else Inr val)"

definition project_value :: "site \<Rightarrow> pyval \<Rightarrow> exn + pyval" where
  "project_value c val =
     (case val of
        PList items \<Rightarrow> bindE (sequenceE (map (check c) items)) (\<lambda>stubs. Inr (PList stubs))
      | _ \<Rightarrow> check c val)"

definition project_attribute :: "site \<Rightarrow> pyval \<Rightarrow> string \<Rightarrow> exn + pyval" where
  "project_attribute c obj name = bindE (resolve_attribute c obj name) (project_value c)"

fun default_loop ::
  "site \<Rightarrow> pyval \<Rightarrow> pyval list \<Rightarrow> (string \<times> pyval) list \<Rightarrow> exn + (string \<times> pyval) list" where
  "default_loop c obj [] d = Inr d"
| "default_loop c obj (PStr name # names) d =
     bindE (project_attribute c obj name)
       (\<lambda>val. default_loop c obj names (AList.update name val d))"
| "default_loop c obj (x # names) d = Inl (Builtin TypeError)"

text \<open>\<^verbatim>\<open>timedelta.total_seconds()\<close>\<close>

definition total_seconds :: "int \<Rightarrow> int \<Rightarrow> int \<Rightarrow> real" where
  "total_seconds days seconds microseconds =
     real_of_int ((days * 86400 + seconds) * 1000000 + microseconds) / 1000000"

text \<open>
  \<^verbatim>\<open>ClusterEncoder.default\<close>. A value that is neither a time difference nor an
  instance with a \<^verbatim>\<open>json_attributes\<close> method raises at that call.
\<close>

definition default_enc :: "site \<Rightarrow> pyval \<Rightarrow> exn + pyval" where
  "default_enc c obj =
     (case obj of
        PTimedelta days seconds microseconds \<Rightarrow>
          Inr (PFloat (total_seconds days seconds microseconds))
      | PRef r \<Rightarrow>
          (case map_of (objects c) r of
             None \<Rightarrow> Inl (Builtin AttributeError)
           | Some ob \<Rightarrow>
               bindE (json_attributes c ob)
                 (\<lambda>names. bindE (default_loop c obj names [(''type'', PStr (class_name (cls ob)))])
                    (\<lambda>d. Inr (PDict d))))
      | _ \<Rightarrow> Inl (Builtin AttributeError))"

subsection \<open>The encoder of the standard library driving \<^verbatim>\<open>default\<close>\<close>

text \<open>
  \<^verbatim>\<open>json.dumps(data, sort_keys=True, indent=4, cls=ClusterEncoder)\<close> walks the value;
  whatever is not a scalar, a list or a dictionary goes through \<^verbatim>\<open>default\<close>, and the
  result is walked in turn. The encoder keeps the objects that it is inside of as markers
  and raises \<^verbatim>\<open>ValueError\<close> when it meets one of them again.
\<close>

definition unmarked :: "site \<Rightarrow> nat list \<Rightarrow> nat" where
  "unmarked c markers = card (fst ` set (objects c) - set markers)"

fun rank :: "pyval \<Rightarrow> nat" where
  "rank (PTimedelta d s us) = 1"
| "rank v = 0"

function (sequential) iterencode :: "site \<Rightarrow> nat list \<Rightarrow> pyval \<Rightarrow> exn + json" where
  "iterencode c markers PNone = Inr JNull"
| "iterencode c markers (PBool b) = Inr (JBool b)"
| "iterencode c markers (PInt i) = Inr (JInt i)"
| "iterencode c markers (PFloat x) = Inr (JFloat x)"
| "iterencode c markers (PStr s) = Inr (JString s)"
| "iterencode c markers (PList xs) =
     bindE (sequenceE (map (iterencode c markers) xs)) (\<lambda>js. Inr (JArray js))"
| "iterencode c markers (PDict kvs) =
     bindE (sequenceE (map (\<lambda>kv. bindE (iterencode c markers (snd kv)) (\<lambda>j. Inr (fst kv, j)))
                           (sort_key fst kvs)))
       (\<lambda>ms. Inr (JObject ms))"
| "iterencode c markers (PRef r) =
     (if r \<in> set markers then Inl (Builtin ValueError)
      else case default_enc c (PRef r) of
             Inl e \<Rightarrow> Inl e
           | Inr v \<Rightarrow> iterencode c (r # markers) v)"
| "iterencode c markers (PTimedelta d s us) =
     (case default_enc c (PTimedelta d s us) of
        Inl e \<Rightarrow> Inl e
      | Inr v \<Rightarrow> iterencode c markers v)"
| "iterencode c markers v =
     (case default_enc c v of
        Inl e \<Rightarrow> Inl e
      | Inr v' \<Rightarrow> iterencode c markers v')"
  by pat_completeness auto
termination iterencode
proof (relation "measures [\<lambda>(c, markers, v). unmarked c markers,
                           \<lambda>(c, markers, v). size v,
                           \<lambda>(c, markers, v). rank v]", goal_cases)
  case 1
  show ?case by simp
next
  case (2 c markers xs x)
  then show ?case by (simp add: size_list_estimation' less_Suc_eq_le)
next
  case (3 c markers kvs kv)
  have "k \<in> set ks \<Longrightarrow> size (snd k) < Suc (size_list (size_prod (\<lambda>_. 0) size) ks)"
    for k :: "string \<times> pyval" and ks
    by (induction ks) auto
  with 3 show ?case by simp
next
  case (4 c markers r v)
  from 4(2) obtain ob where "map_of (objects c) r = Some ob"
    by (cases "map_of (objects c) r") (simp_all add: default_enc_def)
  then have "(r, ob) \<in> set (objects c)" by (rule map_of_SomeD)
  then have "r \<in> fst ` set (objects c)" by (rule image_eqI[of _ fst, rotated]) simp
  with 4(1) have "fst ` set (objects c) - set (r # markers) \<subset> fst ` set (objects c) - set markers"
    by auto
  then have "unmarked c (r # markers) < unmarked c markers"
    unfolding unmarked_def by (intro psubset_card_mono) simp_all
  then show ?case by simp
next
  case (5 c markers d s us v)
  then show ?case by (auto simp: default_enc_def)
next
  case (6 c markers v va vb)
  then show ?case by (simp add: default_enc_def)
next
  case (7 c markers v va)
  then show ?case by (simp add: default_enc_def)
qed

definition ClusterEncoder_dumps :: "site \<Rightarrow> pyval \<Rightarrow> exn + json" where
  "ClusterEncoder_dumps c v = iterencode c [] v"

section \<open>The resource model\<close>

text \<open>
  \<^verbatim>\<open>ClusterBase.problem_hosts\<close>: the loop over \<^verbatim>\<open>self.hosts()\<close>, with the list
  \<^verbatim>\<open>host_list\<close> that it appends to.
\<close>

fun problem_hosts_loop :: "site \<Rightarrow> pyval list \<Rightarrow> pyval list \<Rightarrow> exn + pyval list" where
  "problem_hosts_loop c [] host_list = Inr host_list"
| "problem_hosts_loop c (host # rest) host_list =
     bindE (getattr c host ''is_down'')
       (\<lambda>down. if truthy down then problem_hosts_loop c rest (host_list @ [host])
                else problem_hosts_loop c rest host_list)"

definition problem_hosts :: "site \<Rightarrow> pyval \<Rightarrow> exn + pyval" where
  "problem_hosts c self =
     bindE (getattr c self ''hosts'') (\<lambda>hosts_method.
     bindE (call c hosts_method) (\<lambda>hosts.
     bindE (case py_iter hosts of Inl e \<Rightarrow> Inl (Builtin e) | Inr xs \<Rightarrow> Inr xs) (\<lambda>xs.
     bindE (problem_hosts_loop c xs []) (\<lambda>host_list. Inr (PList host_list)))))"

text \<open>
  \<^verbatim>\<open>datetime.datetime.fromtimestamp\<close> and \<^verbatim>\<open>datetime.datetime.utcfromtimestamp\<close>.
  Both take a number, raise what the platform's conversion raises for that instant, and
  raise \<^verbatim>\<open>ValueError\<close> when the year of the result is outside 1 to 9999, that is, when
  the wall clock reads less than -62135596800 seconds or at least 253402300800. The first
  reads the instant on the wall clock of the local zone, the second on the clock of UTC.
\<close>

definition timestamp_arg :: "pyval \<Rightarrow> exn + real" where
  "timestamp_arg v =
     (case v of
        PInt t \<Rightarrow> Inr (real_of_int t)
      | PBool b \<Rightarrow> Inr (if b then 1 else 0)
      | PFloat x \<Rightarrow> Inr x
      | _ \<Rightarrow> Inl (Builtin TypeError))"

definition datetime_of_wallclock :: "real \<Rightarrow> exn + pyval" where
  "datetime_of_wallclock w =
     (if - 62135596800 \<le> w \<and> w < 253402300800 then Inr (PDatetime w)
      else Inl (Builtin ValueError))"

definition fromtimestamp :: "site \<Rightarrow> pyval \<Rightarrow> exn + pyval" where
  "fromtimestamp c v =
     bindE (timestamp_arg v)
       (\<lambda>t. case localtime_error c t of
              Some e \<Rightarrow> Inl (Builtin e)
            | None \<Rightarrow> datetime_of_wallclock (t + real_of_int (utcoffset c \<lfloor>t\<rfloor>)))"

definition utcfromtimestamp :: "site \<Rightarrow> pyval \<Rightarrow> exn + pyval" where
  "utcfromtimestamp c v =
     bindE (timestamp_arg v)
       (\<lambda>t. case gmtime_error c t of
              Some e \<Rightarrow> Inl (Builtin e)
            | None \<Rightarrow> datetime_of_wallclock t)"

text \<open>The derived views of \<^verbatim>\<open>JobBase\<close>, in the order of the source.\<close>

definition begin_time_datetime_local :: "site \<Rightarrow> pyval \<Rightarrow> exn + pyval" where
  "begin_time_datetime_local c self = bindE (getattr c self ''begin_time'') (fromtimestamp c)"

definition predicted_start_time_datetime_local :: "site \<Rightarrow> pyval \<Rightarrow> exn + pyval" where
  "predicted_start_time_datetime_local c self =
     bindE (getattr c self ''predicted_start_time'') (fromtimestamp c)"

definition end_time_datetime_local :: "site \<Rightarrow> pyval \<Rightarrow> exn + pyval" where
  "end_time_datetime_local c self = bindE (getattr c self ''end_time'') (utcfromtimestamp c)"

definition reservation_time_datetime_local :: "site \<Rightarrow> pyval \<Rightarrow> exn + pyval" where
  "reservation_time_datetime_local c self =
     bindE (getattr c self ''reservation_time'') (fromtimestamp c)"

definition start_time_datetime_local :: "site \<Rightarrow> pyval \<Rightarrow> exn + pyval" where
  "start_time_datetime_local c self = bindE (getattr c self ''start_time'') (utcfromtimestamp c)"

definition submit_time_datetime_local :: "site \<Rightarrow> pyval \<Rightarrow> exn + pyval" where
  "submit_time_datetime_local c self = bindE (getattr c self ''submit_time'') (fromtimestamp c)"

definition termination_time_datetime_local :: "site \<Rightarrow> pyval \<Rightarrow> exn + pyval" where
  "termination_time_datetime_local c self =
     bindE (getattr c self ''termination_time'') (fromtimestamp c)"

subsection \<open>Shapes of projections\<close>

text \<open>
  A value that the standard encoder writes without calling \<^verbatim>\<open>default\<close>: scalars, and
  lists and dictionaries of such values.
\<close>

fun plain :: "pyval \<Rightarrow> bool" where
  "plain PNone = True"
| "plain (PBool b) = True"
| "plain (PInt i) = True"
| "plain (PFloat x) = True"
| "plain (PStr s) = True"
| "plain (PList xs) = (\<forall>x \<in> set xs. plain x)"
| "plain (PDict kvs) = (\<forall>kv \<in> set kvs. plain (snd kv))"
| "plain (PRef r) = False"
| "plain (PBoundMethod r n) = False"
| "plain (PTimedelta d s us) = False"
| "plain (PDatetime t) = False"

text \<open>The keys of the dictionaries that \<^verbatim>\<open>check\<close> builds, class by class.\<close>

fun stub_keys :: "pyclass \<Rightarrow> string list" where
  "stub_keys CExecutionHost = [''type'', ''name'', ''num_slots'', ''url'']"
| "stub_keys CHost = [''type'', ''name'', ''url'']"
| "stub_keys CJob =
     [''type'', ''name'', ''job_id'', ''array_index'', ''url'', ''user_name'', ''user_url'',
      ''status'', ''submit_time'', ''start_time'', ''end_time'']"
| "stub_keys CQueue = [''type'', ''name'', ''url'']"
| "stub_keys other = []"

text \<open>
  What stands for an object \<open>r\<close> of class \<open>cl\<close> in a projection: for the four classes
  that \<^verbatim>\<open>check\<close> knows, a dictionary with the keys of that class, naming the class
  under \<^verbatim>\<open>type\<close>; for any other class, the object itself.
\<close>

definition reference_mode :: "pyclass \<Rightarrow> nat \<Rightarrow> pyval \<Rightarrow> bool" where
  "reference_mode cl r p =
     (if cl \<in> {CExecutionHost, CHost, CJob, CQueue}
      then (case p of
              PDict d \<Rightarrow> map fst d = stub_keys cl \<and> map_of d ''type'' = Some (PStr (class_name cl))
            | _ \<Rightarrow> False)
      else p = PRef r)"

text \<open>\<^verbatim>\<open>d[key]\<close> on a dictionary and on a JSON object.\<close>

definition py_getitem :: "string \<Rightarrow> pyval \<Rightarrow> exn + pyval" where
  "py_getitem key v =
     (case v of
        PDict d \<Rightarrow> (case map_of d key of None \<Rightarrow> Inl (Builtin KeyError) | Some x \<Rightarrow> Inr x)
      | _ \<Rightarrow> Inl (Builtin TypeError))"

definition json_getitem :: "string \<Rightarrow> json \<Rightarrow> exn + json" where
  "json_getitem key j =
     (case j of
        JObject ms \<Rightarrow> (case map_of ms key of None \<Rightarrow> Inl (Builtin KeyError) | Some x \<Rightarrow> Inr x)
      | _ \<Rightarrow> Inl (Builtin TypeError))"

section \<open>Responses\<close>

text \<open>
  The classes that \<^verbatim>\<open>create_js_response\<close> may be asked to instantiate, and what a view
  may hand back: a JSON document under one of these classes, a redirect to a URL, a rendered
  template (known by its name), the page that renders an exception, or the redirect to the
  login page that \<^verbatim>\<open>login_required\<close> answers with.
\<close>

datatype response_class = HttpResponse | HttpResponseForbidden | Http404 | HttpResponseBadRequest

datatype http_response =
    JsonResponse response_class json
  | HttpResponseRedirect pyval
  | Rendered string
  | RenderedException cluster_exception
  | LoginRedirect

text \<open>
  \<^verbatim>\<open>create_js_response(data=None, message="", response=None, is_failure=False)\<close>.
  \<^verbatim>\<open>Http404\<close> is an exception class, which takes no keyword argument.
\<close>

definition create_js_response ::
  "site \<Rightarrow> pyval \<Rightarrow> pyval \<Rightarrow> response_class option \<Rightarrow> bool \<Rightarrow> exn + http_response" where
  "create_js_response c data message response is_failure =
     (let status = (if is_failure then ''FAIL'' else ''OK'');
          data' = PDict [(''status'', PStr status), (''data'', data), (''message'', message)];
          response' = (case response of None \<Rightarrow> HttpResponse | Some r \<Rightarrow> r)
      in bindE (ClusterEncoder_dumps c data')
           (\<lambda>text. if response' = Http404 then Inl (Builtin TypeError)
                   else Inr (JsonResponse response' text)))"

text \<open>\<^verbatim>\<open>e.http_response\<close>: the attribute of the instance, else that of its class.\<close>

definition exc_http_response :: "cluster_exception \<Rightarrow> pyval" where
  "exc_http_response e =
     (case map_of (inst_dict e) ''http_response'' of
        Some v \<Rightarrow> v
      | None \<Rightarrow> (case class_http_response (exc_class e) of None \<Rightarrow> PNone | Some s \<Rightarrow> PStr s))"

definition handle_cluster_exception :: "site \<Rightarrow> cluster_exception \<Rightarrow> exn + http_response" where
  "handle_cluster_exception c e =
     (let response =
            (if exc_http_response e = PStr ''HttpResponseForbidden'' then Some HttpResponseForbidden
             else if exc_http_response e = PStr ''Http404'' then Some Http404
             else if exc_http_response e = PStr ''HttpResponseBadRequest''
               then Some HttpResponseBadRequest
             else None)
      in create_js_response c (json_response e) (exc_message e) response True)"

section \<open>Requests, the operating system and the scheduler\<close>

text \<open>
  What the views read from a request: the name of the logged-in user, whether there is one,
  \<^verbatim>\<open>request.is_ajax()\<close>, the query parameters, the method, what \<^verbatim>\<open>json.loads\<close> makes
  of the body, whether the posted form validates, and what the form's \<^verbatim>\<open>_get_args\<close>
  yields from its cleaned data.
\<close>

record request =
  req_username :: string
  req_is_authenticated :: bool
  req_is_ajax :: bool
  req_GET :: "(string \<times> string) list"
  req_method :: string
  req_body :: "exn + pyval"
  req_form_is_valid :: bool
  req_form_get_args :: "exn + (string \<times> pyval) list"

text \<open>The truth value of \<^verbatim>\<open>request.GET.get(name, None)\<close>.\<close>

definition GET_get :: "request \<Rightarrow> string \<Rightarrow> bool" where
  "GET_get request name =
     (case map_of (req_GET request) name of None \<Rightarrow> False | Some s \<Rightarrow> s \<noteq> [])"

text \<open>
  The calls into the scheduler: the constructors \<^verbatim>\<open>Job(job_id, array_index)\<close>,
  \<^verbatim>\<open>Host(host_name)\<close> and \<^verbatim>\<open>Queue(queue_name)\<close>, which look the entity up, and the
  mutating methods. The scheduler is outside the code: a call returns a value, raises, or
  ends the process that made it (its client is a C library), and its answer may depend on
  the effective user of the caller.
\<close>

datatype sched_call =
    JobResolve int int
  | JobKill int int
  | JobSuspend int int
  | JobResume int int
  | JobRequeue int int bool
  | JobSubmit "(string \<times> pyval) list"
  | HostResolve string
  | HostClose string
  | HostOpen string
  | QueueResolve string
  | QueueClose string
  | QueueOpen string
  | QueueInactivate string
  | QueueActivate string

datatype 'a result = Ok 'a | Raise exn | Crash

text \<open>
  What is observable of a run: a worker process being started, a call of \<^verbatim>\<open>os.setuid\<close>
  with its target and whether it succeeded, and a call into the scheduler with the
  effective user id under which it was made.
\<close>

datatype event = Spawn | Setuid nat bool | Sched nat sched_call

text \<open>What travels on the queue between the worker and the view: a response or an exception.\<close>

datatype message = MsgResponse http_response | MsgExc exn

record world =
  passwd :: "(string \<times> nat) list"
  euid :: nat
  setuid_permitted :: "nat \<Rightarrow> nat \<Rightarrow> bool"
  scheduler :: "nat \<Rightarrow> sched_call \<Rightarrow> pyval result"
  trace :: "event list"
  chan :: "message list"

text \<open>Statements that read and change the world, and may raise or end the process.\<close>

definition returnW :: "'a \<Rightarrow> world \<Rightarrow> 'a result \<times> world" where
  "returnW x w = (Ok x, w)"

definition bindW ::
  "(world \<Rightarrow> 'a result \<times> world) \<Rightarrow> ('a \<Rightarrow> world \<Rightarrow> 'b result \<times> world) \<Rightarrow>
   world \<Rightarrow> 'b result \<times> world" where
  "bindW m f w =
     (case m w of
        (Ok x, w') \<Rightarrow> f x w'
      | (Raise e, w') \<Rightarrow> (Raise e, w')
      | (Crash, w') \<Rightarrow> (Crash, w'))"

text \<open>\<^verbatim>\<open>try: ... except Exception as e: ...\<close>\<close>

definition try_except ::
  "(world \<Rightarrow> 'a result \<times> world) \<Rightarrow> (exn \<Rightarrow> world \<Rightarrow> 'a result \<times> world) \<Rightarrow>
   world \<Rightarrow> 'a result \<times> world" where
  "try_except m handler w =
     (case m w of
        (Raise e, w') \<Rightarrow> handler e w'
      | (r, w') \<Rightarrow> (r, w'))"

definition liftE :: "exn + 'a \<Rightarrow> world \<Rightarrow> 'a result \<times> world" where
  "liftE r w = (case r of Inl e \<Rightarrow> (Raise e, w) | Inr x \<Rightarrow> (Ok x, w))"

text \<open>\<^verbatim>\<open>pwd.getpwnam(name).pw_uid\<close>\<close>

definition pwd_getpwnam :: "string \<Rightarrow> world \<Rightarrow> nat result \<times> world" where
  "pwd_getpwnam name w =
     (case map_of (passwd w) name of
        None \<Rightarrow> (Raise (Builtin KeyError), w)
      | Some uid \<Rightarrow> (Ok uid, w))"

text \<open>\<^verbatim>\<open>os.setuid(uid)\<close>\<close>

definition os_setuid :: "nat \<Rightarrow> world \<Rightarrow> unit result \<times> world" where
  "os_setuid uid w =
     (if setuid_permitted w (euid w) uid
      then (Ok (), w\<lparr>euid := uid, trace := trace w @ [Setuid uid True]\<rparr>)
      else (Raise (Builtin OSError), w\<lparr>trace := trace w @ [Setuid uid False]\<rparr>))"

definition sched_call :: "sched_call \<Rightarrow> world \<Rightarrow> pyval result \<times> world" where
  "sched_call sc w = (scheduler w (euid w) sc, w\<lparr>trace := trace w @ [Sched (euid w) sc]\<rparr>)"

text \<open>\<^verbatim>\<open>queue.put(m)\<close>\<close>

definition queue_put :: "message \<Rightarrow> world \<Rightarrow> unit result \<times> world" where
  "queue_put m w = (Ok (), w\<lparr>chan := chan w @ [m]\<rparr>)"

section \<open>The workers\<close>

text \<open>
  Each \<^verbatim>\<open>execute_*\<close> function is the target of a worker process. All of them open with
  the same two statements, the lookup of the user id and \<^verbatim>\<open>os.setuid\<close>, inside a
  \<^verbatim>\<open>try\<close> whose handler puts the exception on the queue.
\<close>

text \<open>\<^verbatim>\<open>HttpResponseRedirect(reverse(name, args))\<close>\<close>

definition redirect :: "site \<Rightarrow> string \<Rightarrow> pyval list \<Rightarrow> exn + http_response" where
  "redirect c name args = bindE (reverse c name args) (\<lambda>url. Inr (HttpResponseRedirect url))"

text \<open>\<^verbatim>\<open>queue.put(r)\<close> for a response \<open>r\<close> whose construction may raise.\<close>

definition put_response :: "exn + http_response \<Rightarrow> world \<Rightarrow> unit result \<times> world" where
  "put_response r = bindW (liftE r) (\<lambda>resp. queue_put (MsgResponse resp))"

definition execute_queue_close ::
  "site \<Rightarrow> request \<Rightarrow> string \<Rightarrow> world \<Rightarrow> unit result \<times> world" where
  "execute_queue_close c request queue_name =
     try_except
       (bindW (pwd_getpwnam (req_username request)) (\<lambda>user_id.
        bindW (os_setuid user_id) (\<lambda>_.
        bindW (sched_call (QueueResolve queue_name)) (\<lambda>q.
        bindW (sched_call (QueueClose queue_name)) (\<lambda>_.
          if req_is_ajax request
          then put_response (create_js_response c PNone (PStr ''Queue closed'') None False)
          else put_response (redirect c ''olw_queue_view'' [PStr queue_name]))))))
       (\<lambda>e. queue_put (MsgExc e))"

definition execute_queue_open ::
  "site \<Rightarrow> request \<Rightarrow> string \<Rightarrow> world \<Rightarrow> unit result \<times> world" where
  "execute_queue_open c request queue_name =
     try_except
       (bindW (pwd_getpwnam (req_username request)) (\<lambda>user_id.
        bindW (os_setuid user_id) (\<lambda>_.
        bindW (sched_call (QueueResolve queue_name)) (\<lambda>q.
        bindW (sched_call (QueueOpen queue_name)) (\<lambda>_.
          if req_is_ajax request
          then put_response (create_js_response c PNone (PStr ''Queue opened'') None False)
          else put_response (redirect c ''olw_queue_view'' [PStr queue_name]))))))
       (\<lambda>e. queue_put (MsgExc e))"

definition execute_queue_inactivate ::
  "site \<Rightarrow> request \<Rightarrow> string \<Rightarrow> world \<Rightarrow> unit result \<times> world" where
  "execute_queue_inactivate c request queue_name =
     try_except
       (bindW (pwd_getpwnam (req_username request)) (\<lambda>user_id.
        bindW (os_setuid user_id) (\<lambda>_.
        bindW (sched_call (QueueResolve queue_name)) (\<lambda>q.
        bindW (sched_call (QueueInactivate queue_name)) (\<lambda>_.
          if req_is_ajax request
          then put_response (create_js_response c PNone (PStr ''Queue inactivated'') None False)
          else put_response (redirect c ''olw_queue_view'' [PStr queue_name]))))))
       (\<lambda>e. queue_put (MsgExc e))"

definition execute_queue_activate ::
  "site \<Rightarrow> request \<Rightarrow> string \<Rightarrow> world \<Rightarrow> unit result \<times> world" where
  "execute_queue_activate c request queue_name =
     try_except
       (bindW (pwd_getpwnam (req_username request)) (\<lambda>user_id.
        bindW (os_setuid user_id) (\<lambda>_.
        bindW (sched_call (QueueResolve queue_name)) (\<lambda>q.
        bindW (sched_call (QueueActivate queue_name)) (\<lambda>_.
          if req_is_ajax request
          then put_response (create_js_response c PNone (PStr ''Queue activated'') None False)
          else put_response (redirect c ''olw_queue_view'' [PStr queue_name]))))))
       (\<lambda>e. queue_put (MsgExc e))"

definition execute_host_close ::
  "site \<Rightarrow> request \<Rightarrow> string \<Rightarrow> world \<Rightarrow> unit result \<times> world" where
  "execute_host_close c request host_name =
     try_except
       (bindW (pwd_getpwnam (req_username request)) (\<lambda>user_id.
        bindW (os_setuid user_id) (\<lambda>_.
        bindW (sched_call (HostResolve host_name)) (\<lambda>h.
        bindW (sched_call (HostClose host_name)) (\<lambda>_.
          if req_is_ajax request
          then put_response (create_js_response c PNone (PStr '''') None False)
          else put_response (redirect c ''olw_host_view'' [PStr host_name]))))))
       (\<lambda>e. queue_put (MsgExc e))"

definition execute_host_open ::
  "site \<Rightarrow> request \<Rightarrow> string \<Rightarrow> world \<Rightarrow> unit result \<times> world" where
  "execute_host_open c request host_name =
     try_except
       (bindW (pwd_getpwnam (req_username request)) (\<lambda>user_id.
        bindW (os_setuid user_id) (\<lambda>_.
        bindW (sched_call (HostResolve host_name)) (\<lambda>h.
        bindW (sched_call (HostOpen host_name)) (\<lambda>_.
          if req_is_ajax request
          then put_response (create_js_response c PNone (PStr '''') None False)
          else put_response (redirect c ''olw_host_view'' [PStr host_name]))))))
       (\<lambda>e. queue_put (MsgExc e))"

text \<open>
  \<^verbatim>\<open>execute_job_kill\<close> passes its text as the first positional argument of
  \<^verbatim>\<open>create_js_response\<close>, which is \<^verbatim>\<open>data\<close>.
\<close>

definition execute_job_kill ::
  "site \<Rightarrow> request \<Rightarrow> int \<Rightarrow> int \<Rightarrow> world \<Rightarrow> unit result \<times> world" where
  "execute_job_kill c request job_id array_index =
     try_except
       (bindW (pwd_getpwnam (req_username request)) (\<lambda>user_id.
        bindW (os_setuid user_id) (\<lambda>_.
        bindW (sched_call (JobResolve job_id array_index)) (\<lambda>job.
        bindW (sched_call (JobKill job_id array_index)) (\<lambda>_.
          if req_is_ajax request
          then put_response (create_js_response c (PStr ''Job Killed'') (PStr '''') None False)
          else put_response (redirect c ''olw_job_list'' []))))))
       (\<lambda>e. queue_put (MsgExc e))"

definition execute_job_suspend ::
  "site \<Rightarrow> request \<Rightarrow> int \<Rightarrow> int \<Rightarrow> world \<Rightarrow> unit result \<times> world" where
  "execute_job_suspend c request job_id array_index =
     try_except
       (bindW (pwd_getpwnam (req_username request)) (\<lambda>user_id.
        bindW (os_setuid user_id) (\<lambda>_.
        bindW (sched_call (JobResolve job_id array_index)) (\<lambda>job.
        bindW (sched_call (JobSuspend job_id array_index)) (\<lambda>_.
          if req_is_ajax request \<or> GET_get request ''json''
          then put_response (create_js_response c PNone (PStr ''Job suspended'') None False)
          else put_response
                 (redirect c ''olw_job_view_array'' [PInt job_id, PInt array_index]))))))
       (\<lambda>e. queue_put (MsgExc e))"

definition execute_job_resume ::
  "site \<Rightarrow> request \<Rightarrow> int \<Rightarrow> int \<Rightarrow> world \<Rightarrow> unit result \<times> world" where
  "execute_job_resume c request job_id array_index =
     try_except
       (bindW (pwd_getpwnam (req_username request)) (\<lambda>user_id.
        bindW (os_setuid user_id) (\<lambda>_.
        bindW (sched_call (JobResolve job_id array_index)) (\<lambda>job.
        bindW (sched_call (JobResume job_id array_index)) (\<lambda>_.
          if req_is_ajax request \<or> GET_get request ''json''
          then put_response (create_js_response c PNone (PStr ''Job Resumed'') None False)
          else put_response
                 (redirect c ''olw_job_view_array'' [PInt job_id, PInt array_index]))))))
       (\<lambda>e. queue_put (MsgExc e))"

definition execute_job_requeue ::
  "site \<Rightarrow> request \<Rightarrow> int \<Rightarrow> int \<Rightarrow> bool \<Rightarrow> world \<Rightarrow> unit result \<times> world" where
  "execute_job_requeue c request job_id array_index hold =
     try_except
       (bindW (pwd_getpwnam (req_username request)) (\<lambda>user_id.
        bindW (os_setuid user_id) (\<lambda>_.
        bindW (sched_call (JobResolve job_id array_index)) (\<lambda>job.
        bindW (sched_call (JobRequeue job_id array_index hold)) (\<lambda>_.
          if req_is_ajax request \<or> GET_get request ''json''
          then put_response (create_js_response c PNone (PStr ''Job Requeued'') None False)
          else put_response
                 (redirect c ''olw_job_view_array'' [PInt job_id, PInt array_index]))))))
       (\<lambda>e. queue_put (MsgExc e))"

text \<open>\<^verbatim>\<open>len(jobs)\<close> and \<^verbatim>\<open>jobs[0]\<close>\<close>

definition py_len :: "pyval \<Rightarrow> exn + nat" where
  "py_len v =
     (case v of
        PList xs \<Rightarrow> Inr (length xs)
      | PStr s \<Rightarrow> Inr (length s)
      | PDict kvs \<Rightarrow> Inr (length kvs)
      | _ \<Rightarrow> Inl (Builtin TypeError))"

definition py_first :: "pyval \<Rightarrow> exn + pyval" where
  "py_first v =
     (case v of
        PList [] \<Rightarrow> Inl (Builtin IndexError)
      | PList (x # xs) \<Rightarrow> Inr x
      | PStr [] \<Rightarrow> Inl (Builtin IndexError)
      | PStr (ch # s) \<Rightarrow> Inr (PStr [ch])
      | PDict kvs \<Rightarrow> Inl (Builtin KeyError)
      | _ \<Rightarrow> Inl (Builtin TypeError))"

text \<open>
  \<^verbatim>\<open>OLWSubmit.submit(self, ajax_args)\<close>: the arguments come from the request body or
  from the form; \<^verbatim>\<open>_pre_submit\<close> and \<^verbatim>\<open>_post_submit\<close> do nothing in the classes of
  the source. The call \<^verbatim>\<open>Job.submit(**kwargs)\<close> needs a dictionary. An exception inside
  the \<^verbatim>\<open>try\<close> is returned, not raised.
\<close>

definition OLWSubmit_submit ::
  "site \<Rightarrow> request \<Rightarrow> pyval \<Rightarrow> world \<Rightarrow> message result \<times> world" where
  "OLWSubmit_submit c request ajax_args =
     bindW (if truthy ajax_args then returnW ajax_args
            else liftE (bindE (req_form_get_args request) (\<lambda>kvs. Inr (PDict kvs)))) (\<lambda>kwargs.
     try_except
       (bindW (case kwargs of
                 PDict kvs \<Rightarrow> sched_call (JobSubmit kvs)
               | _ \<Rightarrow> liftE (Inl (Builtin TypeError))) (\<lambda>jobs.
        bindW (liftE (py_len jobs)) (\<lambda>_.
          if truthy ajax_args
          then bindW (liftE (create_js_response c jobs (PStr ''Job Submitted'') None False))
                 (\<lambda>resp. returnW (MsgResponse resp))
          else bindW (liftE (py_first jobs)) (\<lambda>job0.
               bindW (liftE (getattr c job0 ''job_id'')) (\<lambda>job_id.
               bindW (liftE (getattr c job0 ''array_index'')) (\<lambda>array_index.
               bindW (liftE (redirect c ''olw_job_view_array'' [job_id, array_index]))
                 (\<lambda>resp. returnW (MsgResponse resp))))))))
       (\<lambda>e. returnW (MsgExc e)))"

definition execute_job_submit ::
  "site \<Rightarrow> request \<Rightarrow> pyval \<Rightarrow> world \<Rightarrow> unit result \<times> world" where
  "execute_job_submit c request ajax_args =
     try_except
       (bindW (pwd_getpwnam (req_username request)) (\<lambda>user_id.
        bindW (os_setuid user_id) (\<lambda>_.
        bindW (OLWSubmit_submit c request ajax_args) (\<lambda>m. queue_put m))))
       (\<lambda>e. queue_put (MsgExc e))"

section \<open>The views\<close>

text \<open>
  What a view comes to: it returns what it took from the queue or built itself, an
  exception leaves it, it waits forever, or the serving process has ended.
\<close>

datatype outcome = Returned message | Raised exn | Blocked | Died

text \<open>
  \<^verbatim>\<open>q = MPQueue(); p = MPProcess(target=..., kwargs=...); p.start(); p.join()\<close>: the
  worker starts on an empty queue with the identity of the serving process; what it does to
  its own identity stays in the worker. The result is what the queue holds when the worker
  has ended.
\<close>

definition start_join ::
  "(world \<Rightarrow> unit result \<times> world) \<Rightarrow> world \<Rightarrow> message list \<times> world" where
  "start_join target w =
     (let w' = snd (target (w\<lparr>trace := trace w @ [Spawn], chan := []\<rparr>))
      in (chan w', w'\<lparr>euid := euid w, chan := chan w\<rparr>))"

text \<open>\<^verbatim>\<open>q.get(False)\<close> raises on an empty queue; \<^verbatim>\<open>q.get(True)\<close> waits.\<close>

definition get_nowait :: "message list \<Rightarrow> exn + message" where
  "get_nowait msgs = (case msgs of [] \<Rightarrow> Inl (Builtin QueueEmpty) | m # ms \<Rightarrow> Inr m)"

definition get_blocking :: "message list \<Rightarrow> message option" where
  "get_blocking msgs = (case msgs of [] \<Rightarrow> None | m # ms \<Rightarrow> Some m)"

text \<open>\<^verbatim>\<open>if isinstance(rc, Exception): raise rc else: return rc\<close>\<close>

definition raise_if_Exception :: "message \<Rightarrow> exn + message" where
  "raise_if_Exception rc = (case rc of MsgExc e \<Rightarrow> Inl e | MsgResponse r \<Rightarrow> Inr rc)"

text \<open>\<^verbatim>\<open>if isinstance(rc, ClusterException): raise rc else: return rc\<close>\<close>

definition raise_if_ClusterException :: "message \<Rightarrow> exn + message" where
  "raise_if_ClusterException rc =
     (case rc of MsgExc (Taxonomy e) \<Rightarrow> Inl (Taxonomy e) | _ \<Rightarrow> Inr rc)"

text \<open>
  The handler \<^verbatim>\<open>except ClusterException as e\<close> of the views, applied to what their
  \<^verbatim>\<open>try\<close> block came to: an exception outside the taxonomy leaves the view.
\<close>

definition except_ClusterException :: "site \<Rightarrow> request \<Rightarrow> exn + message \<Rightarrow> outcome" where
  "except_ClusterException c request r =
     (case r of
        Inr m \<Rightarrow> Returned m
      | Inl (Builtin b) \<Rightarrow> Raised (Builtin b)
      | Inl (Taxonomy e) \<Rightarrow>
          if req_is_ajax request \<or> GET_get request ''json''
          then (case handle_cluster_exception c e of
                  Inl e' \<Rightarrow> Raised e'
                | Inr resp \<Rightarrow> Returned (MsgResponse resp))
          else Returned (MsgResponse (RenderedException e)))"

text \<open>
  \<^verbatim>\<open>request.GET.get('confirm', None) or request.is_ajax() or
  request.GET.get("json", None)\<close>
\<close>

definition confirmed :: "request \<Rightarrow> bool" where
  "confirmed request =
     (GET_get request ''confirm'' \<or> req_is_ajax request \<or> GET_get request ''json'')"

text \<open>
  The branch without confirmation: the view looks the entity up itself and renders the
  confirmation page.
\<close>

definition render_confirm :: "sched_call \<Rightarrow> string \<Rightarrow> world \<Rightarrow> outcome \<times> world" where
  "render_confirm sc template w =
     (case sched_call sc w of
        (Ok obj, w') \<Rightarrow> (Returned (MsgResponse (Rendered template)), w')
      | (Raise e, w') \<Rightarrow> (Raised e, w')
      | (Crash, w') \<Rightarrow> (Died, w'))"

text \<open>The views. Each is decorated with \<^verbatim>\<open>login_required\<close>.\<close>

definition queue_close :: "site \<Rightarrow> request \<Rightarrow> string \<Rightarrow> world \<Rightarrow> outcome \<times> world" where
  "queue_close c request queue_name w =
     (if \<not> req_is_authenticated request then (Returned (MsgResponse LoginRedirect), w)
      else if confirmed request then
        (case start_join (execute_queue_close c request queue_name) w of
           (msgs, w') \<Rightarrow>
             (except_ClusterException c request
                (bindE (get_nowait msgs) raise_if_ClusterException), w'))
      else render_confirm (QueueResolve queue_name) ''openlavaweb/queue_close_confirm.html'' w)"

definition queue_open :: "site \<Rightarrow> request \<Rightarrow> string \<Rightarrow> world \<Rightarrow> outcome \<times> world" where
  "queue_open c request queue_name w =
     (if \<not> req_is_authenticated request then (Returned (MsgResponse LoginRedirect), w)
      else if confirmed request then
        (case start_join (execute_queue_open c request queue_name) w of
           (msgs, w') \<Rightarrow>
             (except_ClusterException c request
                (bindE (get_nowait msgs) raise_if_Exception), w'))
      else render_confirm (QueueResolve queue_name) ''openlavaweb/queue_open_confirm.html'' w)"

definition queue_inactivate :: "site \<Rightarrow> request \<Rightarrow> string \<Rightarrow> world \<Rightarrow> outcome \<times> world" where
  "queue_inactivate c request queue_name w =
     (if \<not> req_is_authenticated request then (Returned (MsgResponse LoginRedirect), w)
      else if confirmed request then
        (case start_join (execute_queue_inactivate c request queue_name) w of
           (msgs, w') \<Rightarrow>
             (except_ClusterException c request
                (bindE (get_nowait msgs) raise_if_Exception), w'))
      else render_confirm (QueueResolve queue_name)
             ''openlavaweb/queue_inactivate_confirm.html'' w)"

definition queue_activate :: "site \<Rightarrow> request \<Rightarrow> string \<Rightarrow> world \<Rightarrow> outcome \<times> world" where
  "queue_activate c request queue_name w =
     (if \<not> req_is_authenticated request then (Returned (MsgResponse LoginRedirect), w)
      else if confirmed request then
        (case start_join (execute_queue_activate c request queue_name) w of
           (msgs, w') \<Rightarrow>
             (except_ClusterException c request
                (bindE (get_nowait msgs) raise_if_Exception), w'))
      else render_confirm (QueueResolve queue_name)
             ''openlavaweb/queue_activate_confirm.html'' w)"

definition host_close :: "site \<Rightarrow> request \<Rightarrow> string \<Rightarrow> world \<Rightarrow> outcome \<times> world" where
  "host_close c request host_name w =
     (if \<not> req_is_authenticated request then (Returned (MsgResponse LoginRedirect), w)
      else if confirmed request then
        (case start_join (execute_host_close c request host_name) w of
           (msgs, w') \<Rightarrow>
             (except_ClusterException c request
                (bindE (get_nowait msgs) raise_if_ClusterException), w'))
      else render_confirm (HostResolve host_name) ''openlavaweb/host_close_confirm.html'' w)"

definition host_open :: "site \<Rightarrow> request \<Rightarrow> string \<Rightarrow> world \<Rightarrow> outcome \<times> world" where
  "host_open c request host_name w =
     (if \<not> req_is_authenticated request then (Returned (MsgResponse LoginRedirect), w)
      else if confirmed request then
        (case start_join (execute_host_open c request host_name) w of
           (msgs, w') \<Rightarrow>
             (except_ClusterException c request
                (bindE (get_nowait msgs) raise_if_Exception), w'))
      else render_confirm (HostResolve host_name) ''openlavaweb/host_open_confirm.html'' w)"

definition job_kill :: "site \<Rightarrow> request \<Rightarrow> int \<Rightarrow> int \<Rightarrow> world \<Rightarrow> outcome \<times> world" where
  "job_kill c request job_id array_index w =
     (if \<not> req_is_authenticated request then (Returned (MsgResponse LoginRedirect), w)
      else if confirmed request then
        (case start_join (execute_job_kill c request job_id array_index) w of
           (msgs, w') \<Rightarrow>
             (except_ClusterException c request
                (bindE (get_nowait msgs) raise_if_Exception), w'))
      else render_confirm (JobResolve job_id array_index)
             ''openlavaweb/job_kill_confirm.html'' w)"

definition job_suspend :: "site \<Rightarrow> request \<Rightarrow> int \<Rightarrow> int \<Rightarrow> world \<Rightarrow> outcome \<times> world" where
  "job_suspend c request job_id array_index w =
     (if \<not> req_is_authenticated request then (Returned (MsgResponse LoginRedirect), w)
      else if confirmed request then
        (case start_join (execute_job_suspend c request job_id array_index) w of
           (msgs, w') \<Rightarrow>
             (except_ClusterException c request
                (bindE (get_nowait msgs) raise_if_Exception), w'))
      else render_confirm (JobResolve job_id array_index)
             ''openlavaweb/job_suspend_confirm.html'' w)"

definition job_resume :: "site \<Rightarrow> request \<Rightarrow> int \<Rightarrow> int \<Rightarrow> world \<Rightarrow> outcome \<times> world" where
  "job_resume c request job_id array_index w =
     (if \<not> req_is_authenticated request then (Returned (MsgResponse LoginRedirect), w)
      else if confirmed request then
        (case start_join (execute_job_resume c request job_id array_index) w of
           (msgs, w') \<Rightarrow>
             (except_ClusterException c request
                (bindE (get_nowait msgs) raise_if_Exception), w'))
      else render_confirm (JobResolve job_id array_index)
             ''openlavaweb/job_resume_confirm.html'' w)"

definition job_requeue :: "site \<Rightarrow> request \<Rightarrow> int \<Rightarrow> int \<Rightarrow> world \<Rightarrow> outcome \<times> world" where
  "job_requeue c request job_id array_index w =
     (if \<not> req_is_authenticated request then (Returned (MsgResponse LoginRedirect), w)
      else
        let hold = GET_get request ''hold''
        in if confirmed request then
             (case start_join (execute_job_requeue c request job_id array_index hold) w of
                (msgs, w') \<Rightarrow>
                  (except_ClusterException c request
                     (bindE (get_nowait msgs) raise_if_Exception), w'))
           else render_confirm (JobResolve job_id array_index)
                  ''openlavaweb/job_requeue_confirm.html'' w)"

text \<open>\<^verbatim>\<open>[cls.__name__ for cls in OLWSubmit.__subclasses__()]\<close>\<close>

definition OLWSubmit_subclasses :: "string list" where
  "OLWSubmit_subclasses = [''JobSubmitForm'', ''SimpleJobSubmitForm'', ''ConsumeResourcesJob'']"

text \<open>
  \<^verbatim>\<open>job_submit\<close>. A name that is no subclass of \<^verbatim>\<open>OLWSubmit\<close> stays a string, on which
  \<^verbatim>\<open>issubclass\<close> raises. The view reads the queue with \<^verbatim>\<open>q.get(True)\<close> before it joins
  the worker.
\<close>

definition job_submit_spawn ::
  "site \<Rightarrow> request \<Rightarrow> pyval \<Rightarrow> world \<Rightarrow> outcome \<times> world" where
  "job_submit_spawn c request ajax_args w =
     (case start_join (execute_job_submit c request ajax_args) w of
        (msgs, w') \<Rightarrow>
          (case get_blocking msgs of
             None \<Rightarrow> (Blocked, w')
           | Some rc \<Rightarrow> (except_ClusterException c request (raise_if_Exception rc), w')))"

definition job_submit :: "site \<Rightarrow> request \<Rightarrow> string \<Rightarrow> world \<Rightarrow> outcome \<times> world" where
  "job_submit c request form_class w =
     (if \<not> req_is_authenticated request then (Returned (MsgResponse LoginRedirect), w)
      else if form_class \<notin> set OLWSubmit_subclasses then (Raised (Builtin TypeError), w)
      else if req_is_ajax request \<or> GET_get request ''json'' then
        (case req_body request of
           Inl e \<Rightarrow> (Raised e, w)
         | Inr ajax_args \<Rightarrow> job_submit_spawn c request ajax_args w)
      else if req_method request = ''POST'' then
        (if \<not> req_form_is_valid request
         then (Returned (MsgResponse (Rendered ''openlavaweb/job_submit.html'')), w)
         else job_submit_spawn c request PNone w)
      else (Returned (MsgResponse (Rendered ''openlavaweb/job_submit.html'')), w))"

section \<open>Fixtures\<close>

text \<open>
  A small site for the examples: a cluster with three hosts, two of them down; job 9767
  of user alice in the queue \<^verbatim>\<open>normal\<close>, the job and the queue referring to each
  other; a process of that job; and a second process, built with the extra keyword
  \<^verbatim>\<open>type\<close>. Attributes that an example does not look at hold
  \<^verbatim>\<open>None\<close>. The local zone is one hour ahead of UTC, and the platform converts
  instants of magnitude below \<open>2 ^ 40\<close> seconds.
\<close>

definition fixture_reverse :: "string \<Rightarrow> pyval list \<Rightarrow> exn + pyval" where
  "fixture_reverse name args =
     Inr (PStr (''/'' @ name @
                concat (map (\<lambda>a. case a of PStr s \<Rightarrow> ''/'' @ s | _ \<Rightarrow> ''/-'') args)))"

definition fixture_slots :: "string list \<Rightarrow> (string \<times> slot) list \<Rightarrow> (string \<times> slot) list" where
  "fixture_slots names given =
     given @ map (\<lambda>n. (n, Attr (Inr PNone))) (filter (\<lambda>n. n \<notin> set (map fst given)) names)"

definition fixture_host :: "string \<Rightarrow> bool \<Rightarrow> pyobj" where
  "fixture_host name down =
     \<lparr>cls = CHost,
      slots = fixture_slots HostBase_json_attributes
                [(''name'', Attr (Inr (PStr name))),
                 (''host_name'', Attr (Inr (PStr name))),
                 (''is_down'', Attr (Inr (PBool down))),
                 (''jobs'', Method (Inr (PList []))),
                 (''load_information'', Method (Inr (PList [])))]\<rparr>"

definition fixture_job :: pyobj where
  "fixture_job =
     \<lparr>cls = CJob,
      slots = fixture_slots JobBase_json_attributes
                [(''name'', Attr (Inr (PStr ''sleep''))),
                 (''job_id'', Attr (Inr (PInt 9767))),
                 (''array_index'', Attr (Inr (PInt 0))),
                 (''user_name'', Attr (Inr (PStr ''alice''))),
                 (''status'', Attr (Inr (PStr ''RUN''))),
                 (''submit_time'', Attr (Inr (PInt 1000))),
                 (''begin_time'', Attr (Inr (PInt 0))),
                 (''predicted_start_time'', Attr (Inr (PInt 1500))),
                 (''reservation_time'', Attr (Inr (PInt 1700))),
                 (''termination_time'', Attr (Inr (PInt 9000))),
                 (''start_time'', Attr (Inr (PInt 2000))),
                 (''end_time'', Attr (Inr (PInt 0))),
                 (''queue'', Method (Inr (PRef 15))),
                 (''requested_hosts'', Method (Inr (PList []))),
                 (''execution_hosts'', Attr (Inr (PList [PRef 12]))),
                 (''processes'', Attr (Inr (PList [PRef 16])))]\<rparr>"

definition fixture_queue :: pyobj where
  "fixture_queue =
     \<lparr>cls = CQueue,
      slots = fixture_slots QueueBase_json_attributes
                [(''name'', Attr (Inr (PStr ''normal''))),
                 (''jobs'', Method (Inr (PList [PRef 14])))]\<rparr>"

definition fixture_process :: pyobj where
  "fixture_process =
     \<lparr>cls = CProcess,
      slots = [(''hostname'', Attr (Inr (PStr ''node2''))),
               (''process_id'', Attr (Inr (PInt 4242))),
               (''extras'', Attr (Inr (PList [])))]\<rparr>"

definition fixture_zombie :: pyobj where
  "fixture_zombie =
     \<lparr>cls = CProcess,
      slots = [(''hostname'', Attr (Inr (PStr ''node2''))),
               (''process_id'', Attr (Inr (PInt 4242))),
               (''extras'', Attr (Inr (PList [PStr ''type'']))),
               (''type'', Attr (Inr (PStr ''zombie'')))]\<rparr>"

definition fixture_site :: site where
  "fixture_site =
     \<lparr>objects =
        [(10, \<lparr>cls = CCluster,
              slots = [(''hosts'', Method (Inr (PList [PRef 11, PRef 12, PRef 13])))]\<rparr>),
         (11, fixture_host ''node1'' False),
         (12, fixture_host ''node2'' True),
         (13, fixture_host ''node3'' True),
         (14, fixture_job),
         (15, fixture_queue),
         (16, fixture_process),
         (17, fixture_zombie)],
      reverse = fixture_reverse,
      utcoffset = (\<lambda>t. 3600),
      localtime_error = (\<lambda>t. if \<bar>t\<bar> < 2 ^ 40 then None else Some ValueError),
      gmtime_error = (\<lambda>t. if \<bar>t\<bar> < 2 ^ 40 then None else Some ValueError)\<rparr>"


section \<open>Sequencing\<close>

lemma bindE_simps [simp]: "bindE (Inl e) f = Inl e" "bindE (Inr x) f = f x"
  by (simp_all add: bindE_def)

lemma sequenceE_all_Inr:
  "\<forall>x \<in> set xs. \<not> isl (f x) \<Longrightarrow> sequenceE (map f xs) = Inr (map (\<lambda>x. projr (f x)) xs)"
  by (induction xs) (auto split: sum.splits)

section \<open>Dictionaries\<close>

lemma keys_update: "fst ` set (AList.update k v al) = insert k (fst ` set al)"
  by (simp add: dom_update)

lemma distinct_keys_sort_key: "distinct (map f xs) \<Longrightarrow> distinct (map f (sort_key f xs))"
  by (induction xs) (simp_all add: distinct_insort_key)

lemma keys_map_snd: "map fst (map (\<lambda>kv. (fst kv, h (snd kv))) xs) = map fst xs"
  by (induction xs) simp_all


lemma dumps_std_dict_ok:
  assumes "\<forall>v \<in> snd ` set kvs. \<not> isl (dumps_std v)" and "distinct (map fst kvs)"
  shows "\<exists>ms. dumps_std (PDict kvs) = Inr (JObject ms) \<and>
           fst ` set ms = fst ` set kvs \<and> distinct (map fst ms) \<and>
           (\<forall>k v. map_of kvs k = Some v \<longrightarrow> map_of ms k = Some (projr (dumps_std v)))"
proof -
  let ?f = "\<lambda>kv. bindE (dumps_std (snd kv)) (\<lambda>j. Inr (fst kv, j))"
  let ?g = "\<lambda>kv. (fst kv, projr (dumps_std (snd kv)))"
  have fg: "?f kv = Inr (?g kv)" if "kv \<in> set kvs" for kv
  proof -
    from that assms(1) have "\<not> isl (dumps_std (snd kv))" by auto
    then obtain j where "dumps_std (snd kv) = Inr j" by (cases "dumps_std (snd kv)") auto
    then show ?thesis by simp
  qed
  have ok: "\<forall>kv \<in> set (sort_key fst kvs). \<not> isl (?f kv)"
    using fg by simp
  let ?ms = "map ?g (sort_key fst kvs)"
  have "sequenceE (map ?f (sort_key fst kvs)) = Inr (map (\<lambda>kv. projr (?f kv)) (sort_key fst kvs))"
    using ok by (rule sequenceE_all_Inr)
  also have "map (\<lambda>kv. projr (?f kv)) (sort_key fst kvs) = ?ms"
    by (rule map_cong[OF refl]) (simp add: fg)
  finally have sq: "sequenceE (map ?f (sort_key fst kvs)) = Inr ?ms" .
  have d: "dumps_std (PDict kvs) = Inr (JObject ?ms)"
    by (simp only: dumps_std.simps sq bindE_simps)
  have keys: "map fst ?ms = map fst (sort_key fst kvs)" by (rule keys_map_snd)
  have "set (map fst ?ms) = set (map fst (sort_key fst kvs))" by (simp only: keys)
  also have "\<dots> = fst ` set kvs" by (simp only: set_map set_sort)
  finally have s: "fst ` set ?ms = fst ` set kvs" by (simp only: set_map)
  have dk: "distinct (map fst (sort_key fst kvs))"
    using assms(2) by (rule distinct_keys_sort_key)
  have di: "distinct (map fst ?ms)" unfolding keys by (rule dk)
  have look: "\<forall>k v. map_of kvs k = Some v \<longrightarrow> map_of ?ms k = Some (projr (dumps_std v))"
  proof (intro allI impI)
    fix k v assume "map_of kvs k = Some v"
    then have "(k, v) \<in> set (sort_key fst kvs)" by (simp add: map_of_SomeD)
    then have "?g (k, v) \<in> ?g ` set (sort_key fst kvs)" by (rule imageI)
    then have "(k, projr (dumps_std v)) \<in> set ?ms" by (simp only: set_map fst_conv snd_conv)
    then show "map_of ?ms k = Some (projr (dumps_std v))" by (rule map_of_is_SomeI[OF di])
  qed
  show ?thesis
    apply (rule exI[of _ ?ms])
    apply (intro conjI)
       apply (rule d)
      apply (rule s)
     apply (rule di)
    apply (rule look)
    done
qed

section \<open>The exception taxonomy\<close>

lemma map_of_map_snd:
  "map_of (map (\<lambda>kv. (fst kv, h (snd kv))) xs) k = map_option h (map_of xs k)"
  by (induction xs) auto

lemma exc_setattr_plain:
  "k \<notin> {''args'', ''__dict__'', ''__class__'', ''__weakref__''} \<Longrightarrow>
     exc_setattr e k v = Inr (e\<lparr>inst_dict := AList.update k v (inst_dict e)\<rparr>)"
  by (simp add: exc_setattr_def)

lemma exc_getattr_plain:
  "f \<notin> {''args'', ''message'', ''__dict__'', ''__class__'', ''__weakref__''} \<Longrightarrow>
     map_of (inst_dict e) f = Some v \<Longrightarrow> exc_getattr e f = Inr (Plain v)"
  by (simp add: exc_getattr_def)

lemma init_extras_ok:
  assumes "distinct (map fst kwargs)"
      and "\<forall>k \<in> fst ` set kwargs.
             k \<notin> {''args'', ''__dict__'', ''__class__'', ''__weakref__'', ''_extras''}"
      and "map_of (inst_dict e) ''_extras'' = Some (PList ns)"
  shows "\<exists>d'. init_extras kwargs e = Inr (e\<lparr>inst_dict := d'\<rparr>) \<and>
           map_of d' = (map_of (inst_dict e) ++ map_of kwargs)
                         (''_extras'' \<mapsto> PList (ns @ map (\<lambda>kv. PStr (fst kv)) kwargs))"
  using assms
proof (induction kwargs arbitrary: e ns)
  case Nil
  have "(map_of (inst_dict e))(''_extras'' \<mapsto> PList ns) = map_of (inst_dict e)"
    using Nil.prems(3) by (rule map_upd_triv)
  then have "init_extras [] e = Inr (e\<lparr>inst_dict := inst_dict e\<rparr>) \<and>
        map_of (inst_dict e) = (map_of (inst_dict e) ++ map_of [])
                         (''_extras'' \<mapsto> PList (ns @ map (\<lambda>kv. PStr (fst kv)) []))"
    by simp
  then show ?case by blast
next
  case (Cons kv kwargs)
  obtain k v where kv: "kv = (k, v)" by (cases kv)
  let ?d1 = "AList.update k v (AList.update ''_extras'' (PList (ns @ [PStr k])) (inst_dict e))"
  let ?e2 = "e\<lparr>inst_dict := ?d1\<rparr>"
  from Cons.prems(2) kv have kok: "k \<notin> {''args'', ''__dict__'', ''__class__'', ''__weakref__''}"
    and kne: "k \<noteq> ''_extras''" by auto
  have m1: "map_of (inst_dict ?e2) ''_extras'' = Some (PList (ns @ [PStr k]))"
    using kne by (simp add: update_conv')
  from Cons.prems(1,2) kv have d': "distinct (map fst kwargs)"
    "\<forall>k \<in> fst ` set kwargs.
        k \<notin> {''args'', ''__dict__'', ''__class__'', ''__weakref__'', ''_extras''}"
    by auto
  from Cons.IH[OF d' m1] obtain d' where
    r1: "init_extras kwargs ?e2 = Inr (?e2\<lparr>inst_dict := d'\<rparr>)" and
    r2: "map_of d' = (map_of (inst_dict ?e2) ++ map_of kwargs)
           (''_extras'' \<mapsto> PList ((ns @ [PStr k]) @ map (\<lambda>kv. PStr (fst kv)) kwargs))"
    by blast
  have knotin: "k \<notin> fst ` set kwargs" using Cons.prems(1) kv by (auto simp: image_iff)
  have kN: "map_of kwargs k = None" using knotin by (simp add: map_of_eq_None_iff)
  have ap: "exc_extras_append e k =
              Inr (e\<lparr>inst_dict := AList.update ''_extras'' (PList (ns @ [PStr k])) (inst_dict e)\<rparr>)"
    using Cons.prems(3) by (simp add: exc_extras_append_def)
  have e1: "init_extras (kv # kwargs) e = Inr (e\<lparr>inst_dict := d'\<rparr>)"
    using r1 by (simp add: kv ap exc_setattr_plain[OF kok])
  have e2: "map_of d' = (map_of (inst_dict e) ++ map_of (kv # kwargs))
              (''_extras'' \<mapsto> PList (ns @ map (\<lambda>kv. PStr (fst kv)) (kv # kwargs)))"
  proof
    fix x
    show "map_of d' x = ((map_of (inst_dict e) ++ map_of (kv # kwargs))
              (''_extras'' \<mapsto> PList (ns @ map (\<lambda>kv. PStr (fst kv)) (kv # kwargs)))) x"
      using kN kne
      by (simp add: r2 kv update_conv' map_add_def split: option.splits)
  qed
  from e1 e2 show ?case by blast
qed

lemma to_json_loop_ok:
  assumes "\<forall>n \<in> set names. n \<in> fst ` set (inst_dict e) \<and>
             n \<notin> {''args'', ''message'', ''__dict__'', ''__class__'', ''__weakref__''}"
  shows "\<exists>fl. to_json_loop e (map PStr names) flds = Inr fl \<and>
           map_of fl = map_of flds ++ ((\<lambda>k. map_option Plain (map_of (inst_dict e) k)) |` set names) \<and>
           fst ` set fl = fst ` set flds \<union> set names \<and>
           (distinct (map fst flds) \<longrightarrow> distinct (map fst fl))"
  using assms
proof (induction names arbitrary: flds)
  case Nil
  then show ?case by simp
next
  case (Cons n names)
  from Cons.prems obtain v where v: "map_of (inst_dict e) n = Some v"
    by (cases "map_of (inst_dict e) n") (auto simp: map_of_eq_None_iff)
  from Cons.prems have nok: "n \<notin> {''args'', ''message'', ''__dict__'', ''__class__'', ''__weakref__''}"
    by simp
  from Cons.prems have "\<forall>n \<in> set names. n \<in> fst ` set (inst_dict e) \<and>
             n \<notin> {''args'', ''message'', ''__dict__'', ''__class__'', ''__weakref__''}" by simp
  from Cons.IH[OF this, of "AList.update n (Plain v) flds"] obtain fl where
    r1: "to_json_loop e (map PStr names) (AList.update n (Plain v) flds) = Inr fl" and
    r2: "map_of fl = map_of (AList.update n (Plain v) flds) ++
           ((\<lambda>k. map_option Plain (map_of (inst_dict e) k)) |` set names)" and
    r3: "fst ` set fl = fst ` set (AList.update n (Plain v) flds) \<union> set names" and
    r4: "distinct (map fst (AList.update n (Plain v) flds)) \<longrightarrow> distinct (map fst fl)"
    by blast
  have e1: "to_json_loop e (map PStr (n # names)) flds = Inr fl"
    using r1 by (simp add: exc_getattr_plain[OF nok v])
  have e2: "map_of fl = map_of flds ++
              ((\<lambda>k. map_option Plain (map_of (inst_dict e) k)) |` set (n # names))"
  proof
    fix x show "map_of fl x = (map_of flds ++
              ((\<lambda>k. map_option Plain (map_of (inst_dict e) k)) |` set (n # names))) x"
      using v by (simp add: r2 update_conv' map_add_def restrict_map_def split: option.splits)
  qed
  have e3: "fst ` set fl = fst ` set flds \<union> set (n # names)"
    by (simp add: r3 keys_update)
  have e4: "distinct (map fst flds) \<longrightarrow> distinct (map fst fl)"
    using r4 by (simp add: distinct_update)
  from e1 e2 e3 e4 show ?case by blast
qed

lemma init_kwargs_ok:
  assumes "distinct (map fst kwargs)"
      and "\<forall>k \<in> fst ` set kwargs. k \<notin> set exception_attribute_names \<and> k \<noteq> ''self''"
  shows "\<exists>d. ClusterException_init cl msg kwargs =
               Inr \<lparr>exc_class = cl, exc_args = [msg], exc_msg = msg, inst_dict = d\<rparr> \<and>
           map_of d ''message'' = None \<and>
           map_of d ''_extras'' = Some (PList (map (\<lambda>kv. PStr (fst kv)) kwargs)) \<and>
           (\<forall>k \<in> fst ` set kwargs. map_of d k = map_of kwargs k)"
proof -
  let ?e0 = "\<lparr>exc_class = cl, exc_args = [msg], exc_msg = msg, inst_dict = [(''_extras'', PList [])]\<rparr>"
  have res: "\<forall>k \<in> fst ` set kwargs.
               k \<notin> {''args'', ''__dict__'', ''__class__'', ''__weakref__'', ''_extras'', ''message'', ''self''}"
    using assms(2) by (auto simp: exception_attribute_names_def)
  then have res1: "\<forall>k \<in> fst ` set kwargs.
               k \<notin> {''args'', ''__dict__'', ''__class__'', ''__weakref__'', ''_extras''}"
    by blast
  from res have ns: "''self'' \<notin> set (map fst kwargs)" "''message'' \<notin> set (map fst kwargs)"
    by auto
  have m0: "map_of (inst_dict ?e0) ''_extras'' = Some (PList [])" by simp
  from init_extras_ok[OF assms(1) res1 m0] obtain d where
    d1: "init_extras kwargs ?e0 = Inr (?e0\<lparr>inst_dict := d\<rparr>)" and
    d2: "map_of d = (map_of (inst_dict ?e0) ++ map_of kwargs)
                      (''_extras'' \<mapsto> PList ([] @ map (\<lambda>kv. PStr (fst kv)) kwargs))"
    by blast
  have i: "ClusterException_init cl msg kwargs =
             Inr \<lparr>exc_class = cl, exc_args = [msg], exc_msg = msg, inst_dict = d\<rparr>"
    using ns d1 by (simp add: ClusterException_init_def exc_setattr_def)
  have mN: "map_of kwargs ''message'' = None"
    using ns(2) by (simp add: map_of_eq_None_iff)
  have c2: "map_of d ''message'' = None"
    by (simp add: d2 map_add_def mN)
  have c3: "map_of d ''_extras'' = Some (PList (map (\<lambda>kv. PStr (fst kv)) kwargs))"
    by (simp add: d2)
  have c4: "\<forall>k \<in> fst ` set kwargs. map_of d k = map_of kwargs k"
  proof
    fix k assume k: "k \<in> fst ` set kwargs"
    with res1 have kne: "k \<noteq> ''_extras''" by blast
    from k obtain v where "map_of kwargs k = Some v"
      by (cases "map_of kwargs k") (auto simp: map_of_eq_None_iff)
    then show "map_of d k = map_of kwargs k"
      using kne by (simp add: d2 map_add_def)
  qed
  show ?thesis
    apply (rule exI[of _ d])
    apply (intro conjI)
       apply (rule i)
      apply (rule c2)
     apply (rule c3)
    apply (rule c4)
    done
qed

text \<open>
  C7. An exception built with the extra field \<^verbatim>\<open>job_id\<close> keeps it as an attribute, and
  \<^verbatim>\<open>json_response\<close> returns the class name and the message only: the extra field is
  not in the record.
\<close>

theorem json_response_omits_extras:
  "ClusterException_init NoSuchJobError (PStr ''Job not found'') [(''job_id'', PInt 9999)] =
     Inr \<lparr>exc_class = NoSuchJobError,
          exc_args = [PStr ''Job not found''],
          exc_msg = PStr ''Job not found'',
          inst_dict = [(''_extras'', PList [PStr ''job_id'']), (''job_id'', PInt 9999)]\<rparr> \<and>
   exc_getattr \<lparr>exc_class = NoSuchJobError,
                exc_args = [PStr ''Job not found''],
                exc_msg = PStr ''Job not found'',
                inst_dict = [(''_extras'', PList [PStr ''job_id'']), (''job_id'', PInt 9999)]\<rparr>
     ''job_id'' = Inr (Plain (PInt 9999)) \<and>
   json_response \<lparr>exc_class = NoSuchJobError,
                  exc_args = [PStr ''Job not found''],
                  exc_msg = PStr ''Job not found'',
                  inst_dict = [(''_extras'', PList [PStr ''job_id'']), (''job_id'', PInt 9999)]\<rparr> =
     PDict [(''exception_class'', PStr ''NoSuchJobError''), (''message'', PStr ''Job not found'')]"
  by (simp add: ClusterException_init_def exc_setattr_def exc_extras_append_def
      exc_getattr_def json_response_def exc_message_def)





section \<open>The resource model\<close>

lemma problem_hosts_loop_filter:
  assumes "\<forall>h \<in> set hosts. \<not> isl (getattr c h ''is_down'')"
  shows "problem_hosts_loop c hosts acc =
           Inr (acc @ filter (\<lambda>h. truthy (projr (getattr c h ''is_down''))) hosts)"
  using assms
proof (induction hosts arbitrary: acc)
  case Nil
  show ?case by simp
next
  case (Cons h hosts)
  from Cons.prems obtain d where d: "getattr c h ''is_down'' = Inr d"
    by (cases "getattr c h ''is_down''") auto
  from Cons.prems have rest: "\<forall>h \<in> set hosts. \<not> isl (getattr c h ''is_down'')" by simp
  show ?case
    by (simp add: d Cons.IH[OF rest])
qed

text \<open>
  C9. When \<^verbatim>\<open>self.hosts()\<close> returns a list and every host on it answers
  \<^verbatim>\<open>is_down\<close>, \<^verbatim>\<open>problem_hosts\<close> returns the hosts of that list whose \<^verbatim>\<open>is_down\<close>
  is true, in the order of the list; they are among the hosts of the cluster.
\<close>

theorem problem_hosts_filter:
  assumes "getattr c self ''hosts'' = Inr m"
      and "call c m = Inr (PList hosts)"
      and "\<forall>h \<in> set hosts. \<not> isl (getattr c h ''is_down'')"
  shows "problem_hosts c self =
           Inr (PList (filter (\<lambda>h. truthy (projr (getattr c h ''is_down''))) hosts)) \<and>
         set (filter (\<lambda>h. truthy (projr (getattr c h ''is_down''))) hosts) \<subseteq> set hosts"
proof
  show "problem_hosts c self =
          Inr (PList (filter (\<lambda>h. truthy (projr (getattr c h ''is_down''))) hosts))"
    by (simp add: problem_hosts_def assms(1,2) problem_hosts_loop_filter[OF assms(3)])
  show "set (filter (\<lambda>h. truthy (projr (getattr c h ''is_down''))) hosts) \<subseteq> set hosts"
    by simp
qed

theorem problem_hosts_filter_witness:
  "getattr fixture_site (PRef 10) ''hosts'' = Inr (PBoundMethod 10 ''hosts'') \<and>
   call fixture_site (PBoundMethod 10 ''hosts'') = Inr (PList [PRef 11, PRef 12, PRef 13]) \<and>
   \<not> isl (getattr fixture_site (PRef 11) ''is_down'') \<and>
   \<not> isl (getattr fixture_site (PRef 12) ''is_down'') \<and>
   \<not> isl (getattr fixture_site (PRef 13) ''is_down'') \<and>
   problem_hosts fixture_site (PRef 10) = Inr (PList [PRef 12, PRef 13])"
proof -
  have g: "getattr fixture_site (PRef 11) ''is_down'' = Inr (PBool False)"
          "getattr fixture_site (PRef 12) ''is_down'' = Inr (PBool True)"
          "getattr fixture_site (PRef 13) ''is_down'' = Inr (PBool True)"
    by (simp_all add: getattr_def fixture_site_def fixture_host_def fixture_slots_def)
  have h1: "getattr fixture_site (PRef 10) ''hosts'' = Inr (PBoundMethod 10 ''hosts'')"
    by (simp add: getattr_def fixture_site_def)
  have h2: "call fixture_site (PBoundMethod 10 ''hosts'') = Inr (PList [PRef 11, PRef 12, PRef 13])"
    by (simp add: call_def fixture_site_def)
  have h3: "\<forall>h \<in> set [PRef 11, PRef 12, PRef 13]. \<not> isl (getattr fixture_site h ''is_down'')"
    by (simp add: g)
  from problem_hosts_filter[OF h1 h2 h3]
  have "problem_hosts fixture_site (PRef 10) = Inr (PList [PRef 12, PRef 13])"
    by (simp add: g)
  with h1 h2 g show ?thesis by simp
qed

section \<open>The datetime views of a job\<close>

lemma fromtimestamp_int:
  assumes "localtime_error c (real_of_int t) = None"
      and "- 62135596800 \<le> t + utcoffset c t" and "t + utcoffset c t < 253402300800"
  shows "fromtimestamp c (PInt t) = Inr (PDatetime (real_of_int (t + utcoffset c t)))"
proof -
  have a: "- 62135596800 \<le> real_of_int (t + utcoffset c t)"
    using assms(2) by linarith
  have b: "real_of_int (t + utcoffset c t) < 253402300800"
    using assms(3) by linarith
  show ?thesis
    using a b by (simp add: fromtimestamp_def timestamp_arg_def datetime_of_wallclock_def assms(1))
qed

lemma utcfromtimestamp_int:
  assumes "gmtime_error c (real_of_int t) = None"
      and "- 62135596800 \<le> t" and "t < 253402300800"
  shows "utcfromtimestamp c (PInt t) = Inr (PDatetime (real_of_int t))"
proof -
  have a: "- 62135596800 \<le> real_of_int t"
    using assms(2) by linarith
  have b: "real_of_int t < 253402300800"
    using assms(3) by linarith
  show ?thesis
    using a b by (simp add: utcfromtimestamp_def timestamp_arg_def datetime_of_wallclock_def assms(1))
qed

lemma fromtimestamp_same:
  "utcoffset c = utcoffset c' \<Longrightarrow> localtime_error c = localtime_error c' \<Longrightarrow>
     fromtimestamp c = fromtimestamp c'"
  by (rule ext) (simp add: fromtimestamp_def split: option.splits cong: option.case_cong)

lemma utcfromtimestamp_same:
  "gmtime_error c = gmtime_error c' \<Longrightarrow> utcfromtimestamp c = utcfromtimestamp c'"
  by (rule ext) (simp add: utcfromtimestamp_def)

lemma local_view:
  assumes "getattr c self n = Inr (PInt t)"
      and "localtime_error c (real_of_int t) = None"
      and "- 62135596800 \<le> t + utcoffset c t" and "t + utcoffset c t < 253402300800"
  shows "bindE (getattr c self n) (fromtimestamp c) =
           Inr (PDatetime (real_of_int (t + utcoffset c t)))"
  using fromtimestamp_int[OF assms(2-4)] assms(1) by simp

lemma utc_view:
  assumes "getattr c self n = Inr (PInt t)"
      and "gmtime_error c (real_of_int t) = None"
      and "- 62135596800 \<le> t" and "t < 253402300800"
  shows "bindE (getattr c self n) (utcfromtimestamp c) = Inr (PDatetime (real_of_int t))"
  using utcfromtimestamp_int[OF assms(2-4)] assms(1) by simp

lemma local_view_same:
  assumes "getattr c self n = getattr c' self' n"
      and "utcoffset c = utcoffset c'" and "localtime_error c = localtime_error c'"
  shows "bindE (getattr c self n) (fromtimestamp c) =
           bindE (getattr c' self' n) (fromtimestamp c')"
  using fromtimestamp_same[OF assms(2,3)] assms(1) by simp

lemma utc_view_same:
  assumes "getattr c self n = getattr c' self' n" and "gmtime_error c = gmtime_error c'"
  shows "bindE (getattr c self n) (utcfromtimestamp c) =
           bindE (getattr c' self' n) (utcfromtimestamp c')"
  using utcfromtimestamp_same[OF assms(2)] assms(1) by simp

text \<open>
  C8. Where the platform converts the instant and the year of the result is between 1
  and 9999, the views of \<^verbatim>\<open>submit_time\<close>, \<^verbatim>\<open>begin_time\<close>,
  \<^verbatim>\<open>predicted_start_time\<close>, \<^verbatim>\<open>reservation_time\<close> and \<^verbatim>\<open>termination_time\<close> show the
  instant on the clock of the local zone, that is, shifted by the offset of that zone; the
  views of \<^verbatim>\<open>start_time\<close> and \<^verbatim>\<open>end_time\<close> show it on the clock of UTC. Each view
  depends on the job through its base attribute only, and the two UTC views do not depend
  on the zone.
\<close>

theorem job_datetime_views:
  "(getattr c self ''submit_time'' = Inr (PInt t) \<and> localtime_error c (real_of_int t) = None \<and>
    - 62135596800 \<le> t + utcoffset c t \<and> t + utcoffset c t < 253402300800 \<longrightarrow>
      submit_time_datetime_local c self = Inr (PDatetime (real_of_int (t + utcoffset c t)))) \<and>
   (getattr c self ''begin_time'' = Inr (PInt t) \<and> localtime_error c (real_of_int t) = None \<and>
    - 62135596800 \<le> t + utcoffset c t \<and> t + utcoffset c t < 253402300800 \<longrightarrow>
      begin_time_datetime_local c self = Inr (PDatetime (real_of_int (t + utcoffset c t)))) \<and>
   (getattr c self ''predicted_start_time'' = Inr (PInt t) \<and>
    localtime_error c (real_of_int t) = None \<and>
    - 62135596800 \<le> t + utcoffset c t \<and> t + utcoffset c t < 253402300800 \<longrightarrow>
      predicted_start_time_datetime_local c self =
        Inr (PDatetime (real_of_int (t + utcoffset c t)))) \<and>
   (getattr c self ''reservation_time'' = Inr (PInt t) \<and>
    localtime_error c (real_of_int t) = None \<and>
    - 62135596800 \<le> t + utcoffset c t \<and> t + utcoffset c t < 253402300800 \<longrightarrow>
      reservation_time_datetime_local c self =
        Inr (PDatetime (real_of_int (t + utcoffset c t)))) \<and>
   (getattr c self ''termination_time'' = Inr (PInt t) \<and>
    localtime_error c (real_of_int t) = None \<and>
    - 62135596800 \<le> t + utcoffset c t \<and> t + utcoffset c t < 253402300800 \<longrightarrow>
      termination_time_datetime_local c self =
        Inr (PDatetime (real_of_int (t + utcoffset c t)))) \<and>
   (getattr c self ''start_time'' = Inr (PInt t) \<and> gmtime_error c (real_of_int t) = None \<and>
    - 62135596800 \<le> t \<and> t < 253402300800 \<longrightarrow>
      start_time_datetime_local c self = Inr (PDatetime (real_of_int t))) \<and>
   (getattr c self ''end_time'' = Inr (PInt t) \<and> gmtime_error c (real_of_int t) = None \<and>
    - 62135596800 \<le> t \<and> t < 253402300800 \<longrightarrow>
      end_time_datetime_local c self = Inr (PDatetime (real_of_int t))) \<and>
   (getattr c self ''submit_time'' = getattr c' self' ''submit_time'' \<and>
    utcoffset c = utcoffset c' \<and> localtime_error c = localtime_error c' \<longrightarrow>
      submit_time_datetime_local c self = submit_time_datetime_local c' self') \<and>
   (getattr c self ''begin_time'' = getattr c' self' ''begin_time'' \<and>
    utcoffset c = utcoffset c' \<and> localtime_error c = localtime_error c' \<longrightarrow>
      begin_time_datetime_local c self = begin_time_datetime_local c' self') \<and>
   (getattr c self ''predicted_start_time'' = getattr c' self' ''predicted_start_time'' \<and>
    utcoffset c = utcoffset c' \<and> localtime_error c = localtime_error c' \<longrightarrow>
      predicted_start_time_datetime_local c self =
        predicted_start_time_datetime_local c' self') \<and>
   (getattr c self ''reservation_time'' = getattr c' self' ''reservation_time'' \<and>
    utcoffset c = utcoffset c' \<and> localtime_error c = localtime_error c' \<longrightarrow>
      reservation_time_datetime_local c self = reservation_time_datetime_local c' self') \<and>
   (getattr c self ''termination_time'' = getattr c' self' ''termination_time'' \<and>
    utcoffset c = utcoffset c' \<and> localtime_error c = localtime_error c' \<longrightarrow>
      termination_time_datetime_local c self = termination_time_datetime_local c' self') \<and>
   (getattr c self ''start_time'' = getattr c' self' ''start_time'' \<and>
    gmtime_error c = gmtime_error c' \<longrightarrow>
      start_time_datetime_local c self = start_time_datetime_local c' self') \<and>
   (getattr c self ''end_time'' = getattr c' self' ''end_time'' \<and>
    gmtime_error c = gmtime_error c' \<longrightarrow>
      end_time_datetime_local c self = end_time_datetime_local c' self')"
proof (intro conjI impI; elim conjE)
  show "submit_time_datetime_local c self = Inr (PDatetime (real_of_int (t + utcoffset c t)))"
    if "getattr c self ''submit_time'' = Inr (PInt t)"
       "localtime_error c (real_of_int t) = None"
       "- 62135596800 \<le> t + utcoffset c t" "t + utcoffset c t < 253402300800"
    unfolding submit_time_datetime_local_def using that by (rule local_view)
  show "begin_time_datetime_local c self = Inr (PDatetime (real_of_int (t + utcoffset c t)))"
    if "getattr c self ''begin_time'' = Inr (PInt t)"
       "localtime_error c (real_of_int t) = None"
       "- 62135596800 \<le> t + utcoffset c t" "t + utcoffset c t < 253402300800"
    unfolding begin_time_datetime_local_def using that by (rule local_view)
  show "predicted_start_time_datetime_local c self =
          Inr (PDatetime (real_of_int (t + utcoffset c t)))"
    if "getattr c self ''predicted_start_time'' = Inr (PInt t)"
       "localtime_error c (real_of_int t) = None"
       "- 62135596800 \<le> t + utcoffset c t" "t + utcoffset c t < 253402300800"
    unfolding predicted_start_time_datetime_local_def using that by (rule local_view)
  show "reservation_time_datetime_local c self =
          Inr (PDatetime (real_of_int (t + utcoffset c t)))"
    if "getattr c self ''reservation_time'' = Inr (PInt t)"
       "localtime_error c (real_of_int t) = None"
       "- 62135596800 \<le> t + utcoffset c t" "t + utcoffset c t < 253402300800"
    unfolding reservation_time_datetime_local_def using that by (rule local_view)
  show "termination_time_datetime_local c self =
          Inr (PDatetime (real_of_int (t + utcoffset c t)))"
    if "getattr c self ''termination_time'' = Inr (PInt t)"
       "localtime_error c (real_of_int t) = None"
       "- 62135596800 \<le> t + utcoffset c t" "t + utcoffset c t < 253402300800"
    unfolding termination_time_datetime_local_def using that by (rule local_view)
  show "start_time_datetime_local c self = Inr (PDatetime (real_of_int t))"
    if "getattr c self ''start_time'' = Inr (PInt t)" "gmtime_error c (real_of_int t) = None"
       "- 62135596800 \<le> t" "t < 253402300800"
    unfolding start_time_datetime_local_def using that by (rule utc_view)
  show "end_time_datetime_local c self = Inr (PDatetime (real_of_int t))"
    if "getattr c self ''end_time'' = Inr (PInt t)" "gmtime_error c (real_of_int t) = None"
       "- 62135596800 \<le> t" "t < 253402300800"
    unfolding end_time_datetime_local_def using that by (rule utc_view)
  show "submit_time_datetime_local c self = submit_time_datetime_local c' self'"
    if "getattr c self ''submit_time'' = getattr c' self' ''submit_time''"
       "utcoffset c = utcoffset c'" "localtime_error c = localtime_error c'"
    unfolding submit_time_datetime_local_def using that by (rule local_view_same)
  show "begin_time_datetime_local c self = begin_time_datetime_local c' self'"
    if "getattr c self ''begin_time'' = getattr c' self' ''begin_time''"
       "utcoffset c = utcoffset c'" "localtime_error c = localtime_error c'"
    unfolding begin_time_datetime_local_def using that by (rule local_view_same)
  show "predicted_start_time_datetime_local c self =
          predicted_start_time_datetime_local c' self'"
    if "getattr c self ''predicted_start_time'' = getattr c' self' ''predicted_start_time''"
       "utcoffset c = utcoffset c'" "localtime_error c = localtime_error c'"
    unfolding predicted_start_time_datetime_local_def using that by (rule local_view_same)
  show "reservation_time_datetime_local c self = reservation_time_datetime_local c' self'"
    if "getattr c self ''reservation_time'' = getattr c' self' ''reservation_time''"
       "utcoffset c = utcoffset c'" "localtime_error c = localtime_error c'"
    unfolding reservation_time_datetime_local_def using that by (rule local_view_same)
  show "termination_time_datetime_local c self = termination_time_datetime_local c' self'"
    if "getattr c self ''termination_time'' = getattr c' self' ''termination_time''"
       "utcoffset c = utcoffset c'" "localtime_error c = localtime_error c'"
    unfolding termination_time_datetime_local_def using that by (rule local_view_same)
  show "start_time_datetime_local c self = start_time_datetime_local c' self'"
    if "getattr c self ''start_time'' = getattr c' self' ''start_time''"
       "gmtime_error c = gmtime_error c'"
    unfolding start_time_datetime_local_def using that by (rule utc_view_same)
  show "end_time_datetime_local c self = end_time_datetime_local c' self'"
    if "getattr c self ''end_time'' = getattr c' self' ''end_time''"
       "gmtime_error c = gmtime_error c'"
    unfolding end_time_datetime_local_def using that by (rule utc_view_same)
qed

theorem job_datetime_views_witness:
  "getattr fixture_site (PRef 14) ''submit_time'' = Inr (PInt 1000) \<and>
   localtime_error fixture_site 1000 = None \<and>
   submit_time_datetime_local fixture_site (PRef 14) = Inr (PDatetime 4600) \<and>
   getattr fixture_site (PRef 14) ''start_time'' = Inr (PInt 2000) \<and>
   gmtime_error fixture_site 2000 = None \<and>
   start_time_datetime_local fixture_site (PRef 14) = Inr (PDatetime 2000) \<and>
   start_time_datetime_local (fixture_site\<lparr>utcoffset := (\<lambda>t. - 18000)\<rparr>) (PRef 14) =
     Inr (PDatetime 2000) \<and>
   submit_time_datetime_local (fixture_site\<lparr>utcoffset := (\<lambda>t. - 18000)\<rparr>) (PRef 14) =
     Inr (PDatetime (- 17000))"
proof -
  let ?c = "fixture_site" and ?c' = "fixture_site\<lparr>utcoffset := (\<lambda>t. - 18000)\<rparr>"
  let ?j = "PRef 14"
  have g1: "getattr ?c ?j ''submit_time'' = Inr (PInt 1000)"
    by (simp add: getattr_def fixture_site_def fixture_job_def fixture_slots_def)
  have g2: "getattr ?c ?j ''start_time'' = Inr (PInt 2000)"
    by (simp add: getattr_def fixture_site_def fixture_job_def fixture_slots_def)
  have g3: "getattr ?c' ?j ''submit_time'' = Inr (PInt 1000)"
    by (simp add: getattr_def fixture_site_def fixture_job_def fixture_slots_def)
  have g4: "getattr ?c' ?j ''start_time'' = Inr (PInt 2000)"
    by (simp add: getattr_def fixture_site_def fixture_job_def fixture_slots_def)
  have o1: "utcoffset ?c 1000 = 3600" by (simp add: fixture_site_def)
  have o2: "utcoffset ?c' 1000 = - 18000" by simp
  have p1: "localtime_error ?c (real_of_int 1000) = None"
    by (simp add: fixture_site_def)
  have p2: "gmtime_error ?c (real_of_int 2000) = None"
    by (simp add: fixture_site_def)
  have p3: "localtime_error ?c' (real_of_int 1000) = None"
    by (simp add: fixture_site_def)
  have p4: "gmtime_error ?c' (real_of_int 2000) = None"
    by (simp add: fixture_site_def)
  note v1 = job_datetime_views[of ?c ?j 1000 ?c ?j]
  note v2 = job_datetime_views[of ?c ?j 2000 ?c ?j]
  note v3 = job_datetime_views[of ?c' ?j 2000 ?c' ?j]
  note v4 = job_datetime_views[of ?c' ?j 1000 ?c' ?j]
  have a: "submit_time_datetime_local ?c ?j = Inr (PDatetime 4600)"
    using v1[THEN conjunct1] g1 o1 p1 by simp
  have b: "start_time_datetime_local ?c ?j = Inr (PDatetime 2000)"
    using v2[THEN conjunct2, THEN conjunct2, THEN conjunct2, THEN conjunct2, THEN conjunct2,
             THEN conjunct1] g2 p2 by simp
  have c: "start_time_datetime_local ?c' ?j = Inr (PDatetime 2000)"
    using v3[THEN conjunct2, THEN conjunct2, THEN conjunct2, THEN conjunct2, THEN conjunct2,
             THEN conjunct1] g4 p4 by simp
  have d: "submit_time_datetime_local ?c' ?j = Inr (PDatetime (- 17000))"
    using v4[THEN conjunct1] g3 o2 p3 by simp
  from g1 g2 a b c d p1 p2 show ?thesis by simp
qed

section \<open>The projection encoder\<close>

lemma sequenceE_not_isl:
  "\<forall>x \<in> set xs. \<not> isl (f x) \<Longrightarrow> \<not> isl (sequenceE (map f xs))"
  by (simp add: sequenceE_all_Inr)

lemma sequenceE_Inr_nth:
  "sequenceE ms = Inr ys \<Longrightarrow> length ys = length ms \<and> (\<forall>i < length ms. ms ! i = Inr (ys ! i))"
proof (induction ms arbitrary: ys)
  case Nil
  then show ?case by simp
next
  case (Cons m ms)
  from Cons.prems obtain y where y: "m = Inr y" by (cases m) simp_all
  from Cons.prems y obtain ys' where ys': "sequenceE ms = Inr ys'" "ys = y # ys'"
    by (cases "sequenceE ms") auto
  from Cons.IH[OF ys'(1)] have ih: "length ys' = length ms" "\<forall>i < length ms. ms ! i = Inr (ys' ! i)"
    by simp_all
  show ?case
  proof (intro conjI allI impI)
    show "length ys = length (m # ms)" using ih(1) ys'(2) by simp
  next
    fix i assume "i < length (m # ms)"
    then show "(m # ms) ! i = Inr (ys ! i)"
      using ih(2) y ys'(2) by (cases i) simp_all
  qed
qed

lemma check_reference_mode:
  assumes "check c (PRef r) = Inr p" and "map_of (objects c) r = Some ob"
  shows "reference_mode (cls ob) r p"
proof -
  consider "cls ob = CExecutionHost" | "cls ob = CHost" | "cls ob = CJob" | "cls ob = CQueue"
    | "cls ob \<notin> {CExecutionHost, CHost, CJob, CQueue}" by blast
  then show ?thesis
  proof cases
    case 1
    with assms show ?thesis
      by (auto simp: check_def reference_mode_def bindE_def split: sum.splits)
  next
    case 2
    with assms show ?thesis
      by (auto simp: check_def reference_mode_def bindE_def split: sum.splits)
  next
    case 3
    with assms show ?thesis
      by (auto simp: check_def reference_mode_def bindE_def split: sum.splits)
  next
    case 4
    with assms show ?thesis
      by (auto simp: check_def reference_mode_def bindE_def split: sum.splits)
  next
    case 5
    with assms show ?thesis
      by (auto simp: check_def reference_mode_def)
  qed
qed

lemma check_other: "\<forall>r. v \<noteq> PRef r \<Longrightarrow> check c v = Inr v"
  by (cases v) (simp_all add: check_def)

lemma default_loop_ok:
  assumes "\<forall>n \<in> set names. \<not> isl (project_attribute c obj n)"
  shows "\<exists>d'. default_loop c obj (map PStr names) d = Inr d' \<and>
           fst ` set d' = fst ` set d \<union> set names \<and>
           (distinct (map fst d) \<longrightarrow> distinct (map fst d')) \<and>
           (\<forall>n \<in> set names. map_of d' n = Some (projr (project_attribute c obj n))) \<and>
           (\<forall>k. k \<notin> set names \<longrightarrow> map_of d' k = map_of d k)"
  using assms
proof (induction names arbitrary: d)
  case Nil
  show ?case by simp
next
  case (Cons n names)
  from Cons.prems obtain v where v: "project_attribute c obj n = Inr v"
    by (cases "project_attribute c obj n") auto
  from Cons.prems have rest: "\<forall>n \<in> set names. \<not> isl (project_attribute c obj n)" by simp
  let ?d1 = "AList.update n v d"
  from Cons.IH[OF rest, of ?d1] obtain d' where
    r1: "default_loop c obj (map PStr names) ?d1 = Inr d'" and
    r2: "fst ` set d' = fst ` set ?d1 \<union> set names" and
    r3: "distinct (map fst ?d1) \<longrightarrow> distinct (map fst d')" and
    r4: "\<forall>n \<in> set names. map_of d' n = Some (projr (project_attribute c obj n))" and
    r5: "\<forall>k. k \<notin> set names \<longrightarrow> map_of d' k = map_of ?d1 k"
    by blast
  have e1: "default_loop c obj (map PStr (n # names)) d = Inr d'"
    using r1 v by simp
  have e2: "fst ` set d' = fst ` set d \<union> set (n # names)"
    by (simp add: r2 keys_update)
  have e3: "distinct (map fst d) \<longrightarrow> distinct (map fst d')"
    using r3 by (simp add: distinct_update)
  have e4: "\<forall>m \<in> set (n # names). map_of d' m = Some (projr (project_attribute c obj m))"
  proof
    fix m assume m: "m \<in> set (n # names)"
    show "map_of d' m = Some (projr (project_attribute c obj m))"
    proof (cases "m \<in> set names")
      case True
      with r4 show ?thesis by blast
    next
      case False
      with m have "m = n" by simp
      with False r5 v show ?thesis by (simp add: update_conv')
    qed
  qed
  have e5: "\<forall>k. k \<notin> set (n # names) \<longrightarrow> map_of d' k = map_of d k"
    using r5 by (simp add: update_conv')
  from e1 e2 e3 e4 e5 show ?case by blast
qed

lemma default_loop_Inr_projects:
  "default_loop c obj (map PStr names) d = Inr d' \<Longrightarrow>
     \<forall>n \<in> set names. \<not> isl (project_attribute c obj n)"
proof (induction names arbitrary: d)
  case Nil
  show ?case by simp
next
  case (Cons n names)
  from Cons.prems obtain v where v: "project_attribute c obj n = Inr v"
    by (cases "project_attribute c obj n") simp_all
  with Cons.prems have "default_loop c obj (map PStr names) (AList.update n v d) = Inr d'"
    by simp
  from Cons.IH[OF this] v show ?case by simp
qed

lemma plain_iterencode: "plain v \<Longrightarrow> \<not> isl (iterencode c markers v)"
proof (induction v)
  case (PList xs)
  then have "\<forall>x \<in> set xs. \<not> isl (iterencode c markers x)" by simp
  then have "\<not> isl (sequenceE (map (iterencode c markers) xs))" by (rule sequenceE_not_isl)
  then show ?case by (cases "sequenceE (map (iterencode c markers) xs)") simp_all
next
  case (PDict kvs)
  let ?f = "\<lambda>kv. bindE (iterencode c markers (snd kv)) (\<lambda>j. Inr (fst kv, j))"
  have "\<forall>kv \<in> set (sort_key fst kvs). \<not> isl (?f kv)"
  proof
    fix kv assume "kv \<in> set (sort_key fst kvs)"
    then have kv: "kv \<in> set kvs" by simp
    with PDict.prems have "plain (snd kv)" by simp
    moreover have "snd kv \<in> Basic_BNFs.snds kv" by (cases kv) simp
    ultimately have "\<not> isl (iterencode c markers (snd kv))" using PDict.IH kv by blast
    then show "\<not> isl (?f kv)" by (cases "iterencode c markers (snd kv)") simp_all
  qed
  then have "\<not> isl (sequenceE (map ?f (sort_key fst kvs)))" by (rule sequenceE_not_isl)
  then show ?case by (cases "sequenceE (map ?f (sort_key fst kvs))") simp_all
qed simp_all

lemma project_attribute_value:
  assumes "\<not> isl (project_attribute c obj n)"
  shows "\<exists>val v. getattr c obj n = Inr val \<and>
           (if callable val then call c val else Inr val) = Inr v \<and>
           (case v of
              PList items \<Rightarrow>
                project_attribute c obj n = Inr (PList (map (\<lambda>i. projr (check c i)) items)) \<and>
                (\<forall>i \<in> set items. \<not> isl (check c i))
            | _ \<Rightarrow> project_attribute c obj n = check c v)"
proof -
  from assms obtain val where g: "getattr c obj n = Inr val"
    by (cases "getattr c obj n") (simp_all add: project_attribute_def resolve_attribute_def)
  from assms g obtain v where r: "(if callable val then call c val else Inr val) = Inr v"
    by (cases "if callable val then call c val else Inr val")
       (simp_all add: project_attribute_def resolve_attribute_def)
  have pa: "project_attribute c obj n = project_value c v"
    using g r by (simp add: project_attribute_def resolve_attribute_def)
  have "case v of
          PList items \<Rightarrow>
            project_attribute c obj n = Inr (PList (map (\<lambda>i. projr (check c i)) items)) \<and>
            (\<forall>i \<in> set items. \<not> isl (check c i))
        | _ \<Rightarrow> project_attribute c obj n = check c v"
  proof (cases v)
    case (PList items)
    from assms pa PList obtain stubs where s: "sequenceE (map (check c) items) = Inr stubs"
      by (cases "sequenceE (map (check c) items)") (simp_all add: project_value_def)
    from sequenceE_Inr_nth[OF s] have
      len: "length stubs = length items" and
      nth: "\<forall>i < length items. check c (items ! i) = Inr (stubs ! i)" by simp_all
    have ok: "\<forall>i \<in> set items. \<not> isl (check c i)"
    proof
      fix i assume "i \<in> set items"
      then obtain k where "k < length items" "items ! k = i" by (auto simp: in_set_conv_nth)
      with nth show "\<not> isl (check c i)" by auto
    qed
    have "sequenceE (map (check c) items) = Inr (map (\<lambda>i. projr (check c i)) items)"
      using ok by (rule sequenceE_all_Inr)
    then show ?thesis using PList pa ok by (simp add: project_value_def)
  qed (simp_all add: pa project_value_def)
  with g r show ?thesis by blast
qed


lemma json_attributes_type:
  assumes "json_attributes c ob = Inr (map PStr names)" and "cls ob \<noteq> CProcess"
  shows "''type'' \<notin> set names"
proof -
  have inj: "map PStr names = map PStr xs \<Longrightarrow> names = xs" for xs
    by (simp add: inj_map_eq_map inj_on_def)
  show ?thesis
  proof (cases "cls ob")
    case CCluster
    with assms(1) have "map PStr names = map PStr ClusterBase_json_attributes"
      by (simp add: json_attributes_def)
    then have "names = ClusterBase_json_attributes" by (rule inj)
    then show ?thesis by (simp add: ClusterBase_json_attributes_def)
  next
    case CHost
    with assms(1) have "map PStr names = map PStr HostBase_json_attributes"
      by (simp add: json_attributes_def)
    then have "names = HostBase_json_attributes" by (rule inj)
    then show ?thesis by (simp add: HostBase_json_attributes_def)
  next
    case CExecutionHost
    with assms(1) have "map PStr names = map PStr HostBase_json_attributes"
      by (simp add: json_attributes_def)
    then have "names = HostBase_json_attributes" by (rule inj)
    then show ?thesis by (simp add: HostBase_json_attributes_def)
  next
    case CJob
    with assms(1) have "map PStr names = map PStr JobBase_json_attributes"
      by (simp add: json_attributes_def)
    then have "names = JobBase_json_attributes" by (rule inj)
    then show ?thesis by (simp add: JobBase_json_attributes_def)
  next
    case CQueue
    with assms(1) have "map PStr names = map PStr QueueBase_json_attributes"
      by (simp add: json_attributes_def)
    then have "names = QueueBase_json_attributes" by (rule inj)
    then show ?thesis by (simp add: QueueBase_json_attributes_def)
  next
    case CUser
    with assms(1) have "map PStr names = map PStr UserBase_json_attributes"
      by (simp add: json_attributes_def)
    then have "names = UserBase_json_attributes" by (rule inj)
    then show ?thesis by (simp add: UserBase_json_attributes_def)
  next
    case CProcess
    with assms(2) show ?thesis by simp
  next
    case CResourceLimit
    with assms(1) have "map PStr names = map PStr ResourceLimit_json_attributes"
      by (simp add: json_attributes_def)
    then have "names = ResourceLimit_json_attributes" by (rule inj)
    then show ?thesis by (simp add: ResourceLimit_json_attributes_def)
  next
    case CConsumedResource
    with assms(1) have "map PStr names = map PStr ConsumedResource_json_attributes"
      by (simp add: json_attributes_def)
    then have "names = ConsumedResource_json_attributes" by (rule inj)
    then show ?thesis by (simp add: ConsumedResource_json_attributes_def)
  next
    case (COther n)
    with assms(1) show ?thesis by (simp add: json_attributes_def)
  qed
qed

text \<open>
  C6, amended. For an entity whose declared attributes all resolve and project, \<^verbatim>\<open>default\<close>
  returns a dictionary with distinct keys, which are \<^verbatim>\<open>type\<close> and the declared
  attribute names and no other. Under each declared name stands the value read from the
  attribute, called first when it is callable, and then passed through \<^verbatim>\<open>check\<close>,
  element by element when it is a list. Under \<^verbatim>\<open>type\<close> stands the name of the class
  unless \<^verbatim>\<open>type\<close> is itself a declared attribute, which it is for no entity other
  than a process; then the value of that attribute stands there, as under any declared name.
\<close>

theorem full_projection_keys:
  assumes "map_of (objects c) r = Some ob"
      and "json_attributes c ob = Inr (map PStr names)"
      and "\<forall>n \<in> set names. \<not> isl (project_attribute c (PRef r) n)"
  shows "\<exists>d. default_enc c (PRef r) = Inr (PDict d) \<and>
           distinct (map fst d) \<and>
           fst ` set d = insert ''type'' (set names) \<and>
           (\<forall>n \<in> set names. \<exists>val v.
              getattr c (PRef r) n = Inr val \<and>
              (if callable val then call c val else Inr val) = Inr v \<and>
              (case v of
                 PList items \<Rightarrow> map_of d n = Some (PList (map (\<lambda>i. projr (check c i)) items))
               | _ \<Rightarrow> map_of d n = Some (projr (check c v)))) \<and>
           (''type'' \<notin> set names \<longrightarrow> map_of d ''type'' = Some (PStr (class_name (cls ob)))) \<and>
           (cls ob \<noteq> CProcess \<longrightarrow> map_of d ''type'' = Some (PStr (class_name (cls ob))))"
proof -
  let ?d0 = "[(''type'', PStr (class_name (cls ob)))]"
  from default_loop_ok[OF assms(3), of ?d0] obtain d where
    r1: "default_loop c (PRef r) (map PStr names) ?d0 = Inr d" and
    r2: "fst ` set d = fst ` set ?d0 \<union> set names" and
    r3: "distinct (map fst ?d0) \<longrightarrow> distinct (map fst d)" and
    r4: "\<forall>n \<in> set names. map_of d n = Some (projr (project_attribute c (PRef r) n))" and
    r5: "\<forall>k. k \<notin> set names \<longrightarrow> map_of d k = map_of ?d0 k"
    by blast
  have c1: "default_enc c (PRef r) = Inr (PDict d)"
    by (simp add: default_enc_def assms(1,2) r1)
  have c2: "distinct (map fst d)" using r3 by simp
  have c3: "fst ` set d = insert ''type'' (set names)" using r2 by simp
  have c4: "\<forall>n \<in> set names. \<exists>val v.
              getattr c (PRef r) n = Inr val \<and>
              (if callable val then call c val else Inr val) = Inr v \<and>
              (case v of
                 PList items \<Rightarrow> map_of d n = Some (PList (map (\<lambda>i. projr (check c i)) items))
               | _ \<Rightarrow> map_of d n = Some (projr (check c v)))"
  proof
    fix n assume n: "n \<in> set names"
    with assms(3) have ok: "\<not> isl (project_attribute c (PRef r) n)" by blast
    from project_attribute_value[OF ok] obtain val v where
      g: "getattr c (PRef r) n = Inr val" and
      rv: "(if callable val then call c val else Inr val) = Inr v" and
      pv: "case v of
              PList items \<Rightarrow>
                project_attribute c (PRef r) n = Inr (PList (map (\<lambda>i. projr (check c i)) items)) \<and>
                (\<forall>i \<in> set items. \<not> isl (check c i))
            | _ \<Rightarrow> project_attribute c (PRef r) n = check c v"
      by blast
    from r4 n have m: "map_of d n = Some (projr (project_attribute c (PRef r) n))" by blast
    have "case v of
            PList items \<Rightarrow> map_of d n = Some (PList (map (\<lambda>i. projr (check c i)) items))
          | _ \<Rightarrow> map_of d n = Some (projr (check c v))"
      using pv m by (cases v) simp_all
    with g rv show "\<exists>val v.
              getattr c (PRef r) n = Inr val \<and>
              (if callable val then call c val else Inr val) = Inr v \<and>
              (case v of
                 PList items \<Rightarrow> map_of d n = Some (PList (map (\<lambda>i. projr (check c i)) items))
               | _ \<Rightarrow> map_of d n = Some (projr (check c v)))"
      by blast
  qed
  have c5: "''type'' \<notin> set names \<longrightarrow> map_of d ''type'' = Some (PStr (class_name (cls ob)))"
    using r5 by simp
  have c6: "cls ob \<noteq> CProcess \<longrightarrow> map_of d ''type'' = Some (PStr (class_name (cls ob)))"
    using c5 json_attributes_type[OF assms(2)] by blast
  show ?thesis
    apply (rule exI[of _ d])
    apply (intro conjI)
         apply (rule c1)
        apply (rule c2)
       apply (rule c3)
      apply (rule c4)
     apply (rule c5)
    apply (rule c6)
    done
qed

section \<open>The fixtures\<close>

lemma fixture_slots_lookup:
  "map_of (fixture_slots names given) n =
     (case map_of given n of
        Some s \<Rightarrow> Some s
      | None \<Rightarrow> if n \<in> set names then Some (Attr (Inr PNone)) else None)"
proof -
  have a: "map_of (map (\<lambda>n. (n, Attr (Inr PNone))) xs) n =
             (if n \<in> set xs then Some (Attr (Inr PNone)) else None)" for xs :: "string list"
    by (induction xs) simp_all
  have b: "map_of given n = None \<longleftrightarrow> n \<notin> set (map fst given)"
    by (simp add: map_of_eq_None_iff)
  show ?thesis
    using b by (cases "map_of given n") (simp_all add: fixture_slots_def map_add_def a)
qed

lemmas fixture_objects =
  fixture_site_def fixture_queue_def fixture_job_def fixture_host_def fixture_process_def
  fixture_zombie_def
  fixture_reverse_def fixture_slots_lookup

lemmas encoder_defs =
  getattr_def call_def check_def project_attribute_def resolve_attribute_def
  project_value_def json_attributes_def

lemma fixture_queue_projects:
  "\<forall>n \<in> set QueueBase_json_attributes. \<not> isl (project_attribute fixture_site (PRef 15) n)"
proof
  fix n assume n: "n \<in> set QueueBase_json_attributes"
  consider "n = ''name''" | "n = ''jobs''" | "n \<noteq> ''name''" "n \<noteq> ''jobs''" by blast
  then show "\<not> isl (project_attribute fixture_site (PRef 15) n)"
  proof cases
    case 1
    then show ?thesis by (simp add: fixture_objects encoder_defs)
  next
    case 2
    then show ?thesis by (simp add: fixture_objects encoder_defs)
  next
    case 3
    with n show ?thesis by (simp add: fixture_objects encoder_defs)
  qed
qed

theorem full_projection_keys_witness:
  "map_of (objects fixture_site) 15 = Some fixture_queue \<and>
   json_attributes fixture_site fixture_queue = Inr (map PStr QueueBase_json_attributes) \<and>
   ''type'' \<notin> set QueueBase_json_attributes \<and>
   cls fixture_queue \<noteq> CProcess \<and>
   bindE (default_enc fixture_site (PRef 15)) (py_getitem ''type'') = Inr (PStr ''Queue'') \<and>
   bindE (default_enc fixture_site (PRef 15)) (py_getitem ''name'') = Inr (PStr ''normal'') \<and>
   bindE (default_enc fixture_site (PRef 15)) (py_getitem ''jobs'') =
     Inr (PList [PDict [(''type'', PStr ''Job''),
                        (''name'', PStr ''sleep''),
                        (''job_id'', PInt 9767),
                        (''array_index'', PInt 0),
                        (''url'', PStr ''/olw_job_view_array/-/-''),
                        (''user_name'', PStr ''alice''),
                        (''user_url'', PStr ''/olw_user_view/alice''),
                        (''status'', PStr ''RUN''),
                        (''submit_time'', PInt 1000),
                        (''start_time'', PInt 2000),
                        (''end_time'', PInt 0)]]) \<and>
   bindE (default_enc fixture_site (PRef 15)) (py_getitem ''processes'') =
     Inl (Builtin KeyError)"
proof -
  have h1: "map_of (objects fixture_site) 15 = Some fixture_queue"
    by (simp add: fixture_site_def)
  have h2: "json_attributes fixture_site fixture_queue = Inr (map PStr QueueBase_json_attributes)"
    by (simp add: json_attributes_def fixture_queue_def)
  note h3 = fixture_queue_projects
  have ty: "''type'' \<notin> set QueueBase_json_attributes"
    by (simp add: QueueBase_json_attributes_def)
  have pr: "''processes'' \<notin> insert ''type'' (set QueueBase_json_attributes)"
    by (simp add: QueueBase_json_attributes_def)
  have nm: "''name'' \<in> set QueueBase_json_attributes" "''jobs'' \<in> set QueueBase_json_attributes"
    by (simp_all add: QueueBase_json_attributes_def)
  have g1: "getattr fixture_site (PRef 15) ''name'' = Inr (PStr ''normal'')"
    by (simp add: fixture_objects encoder_defs)
  have g2: "getattr fixture_site (PRef 15) ''jobs'' = Inr (PBoundMethod 15 ''jobs'')"
    by (simp add: fixture_objects encoder_defs)
  have g3: "call fixture_site (PBoundMethod 15 ''jobs'') = Inr (PList [PRef 14])"
    by (simp add: fixture_objects encoder_defs)
  have g4: "check fixture_site (PRef 14) =
     Inr (PDict [(''type'', PStr ''Job''),
                        (''name'', PStr ''sleep''),
                        (''job_id'', PInt 9767),
                        (''array_index'', PInt 0),
                        (''url'', PStr ''/olw_job_view_array/-/-''),
                        (''user_name'', PStr ''alice''),
                        (''user_url'', PStr ''/olw_user_view/alice''),
                        (''status'', PStr ''RUN''),
                        (''submit_time'', PInt 1000),
                        (''start_time'', PInt 2000),
                        (''end_time'', PInt 0)])"
    by (simp add: fixture_objects encoder_defs)
  have g5: "check fixture_site (PStr ''normal'') = Inr (PStr ''normal'')"
    by (simp add: check_def)
  from full_projection_keys[OF h1 h2 h3] obtain d where
    d1: "default_enc fixture_site (PRef 15) = Inr (PDict d)" and
    d3: "fst ` set d = insert ''type'' (set QueueBase_json_attributes)" and
    d4: "\<forall>n \<in> set QueueBase_json_attributes. \<exists>val v.
              getattr fixture_site (PRef 15) n = Inr val \<and>
              (if callable val then call fixture_site val else Inr val) = Inr v \<and>
              (case v of
                 PList items \<Rightarrow> map_of d n = Some (PList (map (\<lambda>i. projr (check fixture_site i)) items))
               | _ \<Rightarrow> map_of d n = Some (projr (check fixture_site v)))" and
    d5: "''type'' \<notin> set QueueBase_json_attributes \<longrightarrow>
           map_of d ''type'' = Some (PStr (class_name (cls fixture_queue)))" and
    d6: "cls fixture_queue \<noteq> CProcess \<longrightarrow>
           map_of d ''type'' = Some (PStr (class_name (cls fixture_queue)))"
    by blast
  have cq: "cls fixture_queue \<noteq> CProcess"
    by (simp add: fixture_queue_def)
  have a: "map_of d ''type'' = Some (PStr ''Queue'')"
    using d5 ty by (simp add: fixture_queue_def)
  have a': "map_of d ''type'' = Some (PStr (class_name (cls fixture_queue)))"
    using d6 cq by (rule mp)
  from d4 nm(1) g1 g5 have b: "map_of d ''name'' = Some (PStr ''normal'')"
    by fastforce
  from d4 nm(2) g2 g3 g4 have e: "map_of d ''jobs'' = Some (PList [projr (check fixture_site (PRef 14))])"
    by fastforce
  have "''processes'' \<notin> fst ` set d" using pr by (simp only: d3 not_False_eq_True)
  then have f: "map_of d ''processes'' = None"
    by (simp only: map_of_eq_None_iff not_False_eq_True)
  show ?thesis
    using h1 h2 ty cq a b e f g4 by (simp add: d1 py_getitem_def)
qed

text \<open>
  C6, as stated, fails: a process built with the extra keyword \<^verbatim>\<open>type\<close> declares
  \<^verbatim>\<open>type\<close> among its attributes. Every accessor of it succeeds, and the
  \<^verbatim>\<open>type\<close> key of its projection holds the value of the keyword, not the name of
  its class.
\<close>

theorem full_projection_type_counterexample:
  "Process_init fixture_site (PStr ''node2'') (PInt 4242) [(''type'', PStr ''zombie'')] =
     Inr fixture_zombie \<and>
   map_of (objects fixture_site) 17 = Some fixture_zombie \<and>
   json_attributes fixture_site fixture_zombie =
     Inr [PStr ''hostname'', PStr ''process_id'', PStr ''type''] \<and>
   project_attribute fixture_site (PRef 17) ''hostname'' = Inr (PStr ''node2'') \<and>
   project_attribute fixture_site (PRef 17) ''process_id'' = Inr (PInt 4242) \<and>
   project_attribute fixture_site (PRef 17) ''type'' = Inr (PStr ''zombie'') \<and>
   class_name (cls fixture_zombie) = ''Process'' \<and>
   default_enc fixture_site (PRef 17) =
     Inr (PDict [(''type'', PStr ''zombie''),
                 (''hostname'', PStr ''node2''),
                 (''process_id'', PInt 4242)])"
proof -
  have a: "Process_init fixture_site (PStr ''node2'') (PInt 4242) [(''type'', PStr ''zombie'')] =
             Inr fixture_zombie"
    by (simp add: Process_init_def Process_setattr_def Process_extras_append_def
                  fixture_zombie_def)
  have b: "map_of (objects fixture_site) 17 = Some fixture_zombie"
    by (simp add: fixture_site_def)
  have c: "json_attributes fixture_site fixture_zombie =
             Inr [PStr ''hostname'', PStr ''process_id'', PStr ''type'']"
    by (simp add: json_attributes_def Process_json_attributes_def fixture_zombie_def)
  have g: "getattr fixture_site (PRef 17) ''hostname'' = Inr (PStr ''node2'')"
          "getattr fixture_site (PRef 17) ''process_id'' = Inr (PInt 4242)"
          "getattr fixture_site (PRef 17) ''type'' = Inr (PStr ''zombie'')"
    by (simp_all add: getattr_def b fixture_zombie_def)
  have p: "project_attribute fixture_site (PRef 17) ''hostname'' = Inr (PStr ''node2'')"
          "project_attribute fixture_site (PRef 17) ''process_id'' = Inr (PInt 4242)"
          "project_attribute fixture_site (PRef 17) ''type'' = Inr (PStr ''zombie'')"
    by (simp_all add: project_attribute_def resolve_attribute_def project_value_def
                      check_def g)
  have e: "class_name (cls fixture_zombie) = ''Process''"
    by (simp add: fixture_zombie_def)
  have f: "default_enc fixture_site (PRef 17) =
     Inr (PDict [(''type'', PStr ''zombie''),
                 (''hostname'', PStr ''node2''),
                 (''process_id'', PInt 4242)])"
    by (simp add: default_enc_def b c e p)
  from a b c p e f show ?thesis by simp
qed

end
